theory Spec2Isabelle
  imports Main
begin

section \<open>Data model\<close>

text \<open>
  The persistent store is a relational database reached through an ORM.  Each table is a
  list of rows; the rows carry the columns the services read or write.  Identifiers are
  the strings the database generates.  Positions are integers.  The names and emails of
  the profiles, which the user search reads, are sequences of Unicode code points.
\<close>

type_synonym ustring = "nat list"

record profile =
  p_id :: string
  p_email :: ustring
  p_first_name :: ustring
  p_last_name :: ustring
  p_avatar_url :: "string option"
  p_is_active :: bool

record board =
  b_id :: string
  b_name :: string
  b_description :: "string option"
  b_color :: string
  b_owner_id :: string

record board_member =
  m_id :: string
  m_board_id :: string
  m_user_id :: string
  m_role :: string

record list_row =
  l_id :: string
  l_name :: string
  l_position :: int
  l_board_id :: string

record task =
  t_id :: string
  t_title :: string
  t_description :: "string option"
  t_priority :: string
  t_due_date :: "string option"
  t_position :: int
  t_list_id :: string
  t_created_by :: string

record task_assignee =
  a_id :: string
  a_task_id :: string
  a_user_id :: string

datatype json = JStr string | JNum int | JNull

record activity_log =
  g_board_id :: string
  g_user_id :: string
  g_task_id :: "string option"
  g_action_type :: string
  g_entity_type :: string
  g_changes :: "(string \<times> json) list"

record db =
  profileT :: "profile list"
  boardT :: "board list"
  boardMemberT :: "board_member list"
  listT :: "list_row list"
  taskT :: "task list"
  taskAssigneeT :: "task_assignee list"
  activityLogT :: "activity_log list"

subsection \<open>Errors\<close>

text \<open>
  A thrown error carries an optional status code, an optional code and a message.
  \<open>createError\<close> builds the typed errors of the services; an exception raised by the
  store or the runtime has no status code.
\<close>

record app_error =
  statusCode :: "nat option"
  code :: "string option"
  message :: string

definition createError :: "nat \<Rightarrow> string \<Rightarrow> string \<Rightarrow> app_error" where
  "createError s c m = \<lparr>statusCode = Some s, code = Some c, message = m\<rparr>"

text \<open>The store rejects a row that repeats a primary key or a unique pair.\<close>

definition unique_violation :: app_error where
  "unique_violation =
     \<lparr>statusCode = None, code = Some ''P2002'', message = ''Unique constraint failed''\<rparr>"

text \<open>A required relation that is missing, or a property read on \<open>null\<close>.\<close>

definition runtime_error :: app_error where
  "runtime_error = \<lparr>statusCode = None, code = None, message = ''Inconsistent query result''\<rparr>"

subsection \<open>Store queries\<close>

definition findBoard :: "db \<Rightarrow> string \<Rightarrow> board option" where
  "findBoard d bid = find (\<lambda>b. b_id b = bid) (boardT d)"

definition findProfile :: "db \<Rightarrow> string \<Rightarrow> profile option" where
  "findProfile d uid = find (\<lambda>p. p_id p = uid) (profileT d)"

definition findMember :: "db \<Rightarrow> string \<Rightarrow> string \<Rightarrow> board_member option" where
  "findMember d bid uid =
     find (\<lambda>m. m_board_id m = bid \<and> m_user_id m = uid) (boardMemberT d)"

definition findList :: "db \<Rightarrow> string \<Rightarrow> list_row option" where
  "findList d lid = find (\<lambda>l. l_id l = lid) (listT d)"

definition findTask :: "db \<Rightarrow> string \<Rightarrow> task option" where
  "findTask d tid = find (\<lambda>t. t_id t = tid) (taskT d)"

definition findAssignee :: "db \<Rightarrow> string \<Rightarrow> string \<Rightarrow> task_assignee option" where
  "findAssignee d tid uid =
     find (\<lambda>a. a_task_id a = tid \<and> a_user_id a = uid) (taskAssigneeT d)"

definition logActivity :: "activity_log \<Rightarrow> db \<Rightarrow> db" where
  "logActivity g d = d\<lparr>activityLogT := activityLogT d @ [g]\<rparr>"

section \<open>Authorization gate\<close>


definition falsy :: "string option \<Rightarrow> bool" where
  "falsy s = (case s of None \<Rightarrow> True | Some v \<Rightarrow> v = [])"



section \<open>Board service\<close>

text \<open>
  Every service takes the store and returns the store after the call together with the
  outcome: \<open>Inl\<close> the error thrown, \<open>Inr\<close> the value returned.  The primary key of a
  new row is drawn by the database; it is an argument of the model, and the store rejects
  a key that is already in use.
\<close>

record board_input =
  bi_name :: string
  bi_description :: "string option"
  bi_color :: "string option"

definition defaultLists :: "string \<Rightarrow> string \<times> string \<times> string \<Rightarrow> list_row list" where
  "defaultLists bid lids = (case lids of (i0, i1, i2) \<Rightarrow>
     [\<lparr>l_id = i0, l_name = ''To Do'', l_position = 0, l_board_id = bid\<rparr>,
      \<lparr>l_id = i1, l_name = ''In Progress'', l_position = 1, l_board_id = bid\<rparr>,
      \<lparr>l_id = i2, l_name = ''Done'', l_position = 2, l_board_id = bid\<rparr>])"

definition listsOfBoard :: "db \<Rightarrow> string \<Rightarrow> list_row list" where
  "listsOfBoard d bid = filter (\<lambda>l. l_board_id l = bid) (listT d)"

definition createBoard ::
  "db \<Rightarrow> string \<Rightarrow> board_input \<Rightarrow> string \<Rightarrow> string \<times> string \<times> string
     \<Rightarrow> db \<times> (app_error + board \<times> list_row list)" where
  "createBoard d userId data bid lids =
     (let new_lists = defaultLists bid lids in
      if bid \<in> set (map b_id (boardT d)) \<or> \<not> distinct (map l_id new_lists)
         \<or> list_ex (\<lambda>i. i \<in> set (map l_id (listT d))) (map l_id new_lists)
      then (d, Inl unique_violation)
      else
        let b = \<lparr>b_id = bid, b_name = bi_name data, b_description = bi_description data,
                 b_color = (case bi_color data of None \<Rightarrow> ''#4472C4'' | Some c \<Rightarrow> c),
                 b_owner_id = userId\<rparr>;
            d1 = d\<lparr>boardT := boardT d @ [b], listT := listT d @ new_lists\<rparr>;
            d2 = logActivity \<lparr>g_board_id = bid, g_user_id = userId, g_task_id = None,
                   g_action_type = ''create'', g_entity_type = ''board'',
                   g_changes = [(''name'', JStr (b_name b))]\<rparr> d1
        in (d2, Inr (b, sort_key l_position (listsOfBoard d1 bid))))"

definition addMember ::
  "db \<Rightarrow> string \<Rightarrow> string \<Rightarrow> string \<Rightarrow> string option \<Rightarrow> string
     \<Rightarrow> db \<times> (app_error + board_member)" where
  "addMember d boardId userId newMemberId role mid =
     (case findBoard d boardId of
        None \<Rightarrow> (d, Inl (createError 404 ''NOT_FOUND'' ''Board not found''))
      | Some b \<Rightarrow>
          if b_owner_id b \<noteq> userId \<and>
             (case findMember d boardId userId of None \<Rightarrow> True | Some r \<Rightarrow> m_role r \<noteq> ''admin'')
          then (d, Inl (createError 403 ''FORBIDDEN'' ''Only the owner or admin can add members''))
          else (case findProfile d newMemberId of
            None \<Rightarrow> (d, Inl (createError 404 ''NOT_FOUND'' ''User not found''))
          | Some u \<Rightarrow>
              if newMemberId = b_owner_id b
              then (d, Inl (createError 400 ''BAD_REQUEST'' ''Cannot add the board owner as a member''))
              else if mid \<in> set (map m_id (boardMemberT d)) \<or> findMember d boardId newMemberId \<noteq> None
              then (d, Inl unique_violation)
              else
                let r = (case role of None \<Rightarrow> ''editor'' | Some v \<Rightarrow> v);
                    m = \<lparr>m_id = mid, m_board_id = boardId, m_user_id = newMemberId, m_role = r\<rparr>;
                    d1 = d\<lparr>boardMemberT := boardMemberT d @ [m]\<rparr>;
                    d2 = logActivity \<lparr>g_board_id = boardId, g_user_id = userId, g_task_id = None,
                           g_action_type = ''create'', g_entity_type = ''board'',
                           g_changes = [(''action'', JStr ''member_added''),
                                        (''member_id'', JStr newMemberId), (''role'', JStr r)]\<rparr> d1
                in (d2, Inr m)))"

definition removeMember ::
  "db \<Rightarrow> string \<Rightarrow> string \<Rightarrow> string \<Rightarrow> db \<times> (app_error + unit)" where
  "removeMember d boardId userId targetUserId =
     (case findBoard d boardId of
        None \<Rightarrow> (d, Inl (createError 404 ''NOT_FOUND'' ''Board not found''))
      | Some b \<Rightarrow>
          if (b_owner_id b \<noteq> userId \<and> userId \<noteq> targetUserId) \<and>
             (case findMember d boardId userId of None \<Rightarrow> True | Some r \<Rightarrow> m_role r \<noteq> ''admin'')
          then (d, Inl (createError 403 ''FORBIDDEN'' ''Insufficient permissions to remove members''))
          else if targetUserId = b_owner_id b
          then (d, Inl (createError 400 ''BAD_REQUEST'' ''Cannot remove the board owner''))
          else (case findMember d boardId targetUserId of
            None \<Rightarrow> (d, Inl (createError 404 ''NOT_FOUND'' ''Member not found''))
          | Some m \<Rightarrow>
              let d1 = d\<lparr>boardMemberT := filter (\<lambda>x. m_id x \<noteq> m_id m) (boardMemberT d)\<rparr>;
                  d2 = logActivity \<lparr>g_board_id = boardId, g_user_id = userId, g_task_id = None,
                         g_action_type = ''delete'', g_entity_type = ''board'',
                         g_changes = [(''action'', JStr ''member_removed''),
                                      (''member_id'', JStr targetUserId)]\<rparr> d1
              in (d2, Inr ())))"

section \<open>List service\<close>

text \<open>
  \<open>findFirst\<close> ordered by position, descending, selects the greatest position of the
  scope, if the scope has a row.
\<close>

definition lastPosition :: "int list \<Rightarrow> int option" where
  "lastPosition ps = (case ps of [] \<Rightarrow> None | p # qs \<Rightarrow> Some (fold max qs p))"

definition nextPosition :: "int list \<Rightarrow> int" where
  "nextPosition ps = (case lastPosition ps of None \<Rightarrow> - 1 | Some p \<Rightarrow> p) + 1"

text \<open>\<open>updateMany\<close>: every row that satisfies the condition is changed.\<close>

definition updateMany :: "('a \<Rightarrow> bool) \<Rightarrow> ('a \<Rightarrow> 'a) \<Rightarrow> 'a list \<Rightarrow> 'a list" where
  "updateMany cond upd rows = map (\<lambda>r. if cond r then upd r else r) rows"

definition createList ::
  "db \<Rightarrow> string \<Rightarrow> string \<Rightarrow> string \<Rightarrow> string \<Rightarrow> db \<times> (app_error + list_row)" where
  "createList d boardId userId name lid =
     (case findBoard d boardId of
        None \<Rightarrow> (d, Inl (createError 404 ''NOT_FOUND'' ''Board not found''))
      | Some b \<Rightarrow>
          let np = nextPosition (map l_position (listsOfBoard d boardId)) in
          if lid \<in> set (map l_id (listT d)) then (d, Inl unique_violation)
          else
            let l = \<lparr>l_id = lid, l_name = name, l_position = np, l_board_id = boardId\<rparr>;
                d1 = d\<lparr>listT := listT d @ [l]\<rparr>;
                d2 = logActivity \<lparr>g_board_id = boardId, g_user_id = userId, g_task_id = None,
                       g_action_type = ''create'', g_entity_type = ''list'',
                       g_changes = [(''name'', JStr (l_name l)), (''position'', JNum (l_position l))]\<rparr> d1
            in (d2, Inr l))"

record list_update =
  lu_name :: "string option"
  lu_position :: "int option"

definition list_update_json :: "list_update \<Rightarrow> (string \<times> json) list" where
  "list_update_json data =
     (case lu_name data of None \<Rightarrow> [] | Some n \<Rightarrow> [(''name'', JStr n)]) @
     (case lu_position data of None \<Rightarrow> [] | Some p \<Rightarrow> [(''position'', JNum p)])"

definition setListName :: "string option \<Rightarrow> list_row \<Rightarrow> list_row" where
  "setListName n l = (case n of None \<Rightarrow> l | Some v \<Rightarrow> l\<lparr>l_name := v\<rparr>)"

definition reorderLists :: "list_row \<Rightarrow> string option \<Rightarrow> int \<Rightarrow> list_row list \<Rightarrow> list_row list" where
  "reorderLists l n p rows =
     (let shifted =
        (if p > l_position l
         then updateMany (\<lambda>r. l_board_id r = l_board_id l \<and>
                               (l_position r > l_position l \<and> l_position r \<le> p) \<and> l_id r \<noteq> l_id l)
                (\<lambda>r. r\<lparr>l_position := l_position r - 1\<rparr>) rows
         else updateMany (\<lambda>r. l_board_id r = l_board_id l \<and>
                               (l_position r \<ge> p \<and> l_position r < l_position l) \<and> l_id r \<noteq> l_id l)
                (\<lambda>r. r\<lparr>l_position := l_position r + 1\<rparr>) rows)
      in updateMany (\<lambda>r. l_id r = l_id l) (\<lambda>r. (setListName n r)\<lparr>l_position := p\<rparr>) shifted)"

definition updateList ::
  "db \<Rightarrow> string \<Rightarrow> string \<Rightarrow> list_update \<Rightarrow> db \<times> (app_error + list_row option)" where
  "updateList d listId userId data =
     (case findList d listId of
        None \<Rightarrow> (d, Inl (createError 404 ''NOT_FOUND'' ''List not found''))
      | Some l \<Rightarrow>
          let d1 =
            (if lu_position data \<noteq> None \<and> the (lu_position data) \<noteq> l_position l
             then d\<lparr>listT := reorderLists l (lu_name data) (the (lu_position data)) (listT d)\<rparr>
             else d\<lparr>listT := updateMany (\<lambda>r. l_id r = listId) (setListName (lu_name data)) (listT d)\<rparr>);
              updated = findList d1 listId;
              d2 = logActivity \<lparr>g_board_id = l_board_id l, g_user_id = userId, g_task_id = None,
                     g_action_type = ''update'', g_entity_type = ''list'',
                     g_changes = list_update_json data\<rparr> d1
          in (d2, Inr updated))"

text \<open>
  Deleting a list takes its tasks with it, and their assignments: the schema cascades.
  The remaining lists of the board are then shifted.
\<close>

definition deleteList :: "db \<Rightarrow> string \<Rightarrow> string \<Rightarrow> db \<times> (app_error + unit)" where
  "deleteList d listId userId =
     (case findList d listId of
        None \<Rightarrow> (d, Inl (createError 404 ''NOT_FOUND'' ''List not found''))
      | Some l \<Rightarrow>
          let gone = map t_id (filter (\<lambda>t. t_list_id t = listId) (taskT d));
              d1 = d\<lparr>listT := filter (\<lambda>r. l_id r \<noteq> listId) (listT d),
                     taskT := filter (\<lambda>t. t_list_id t \<noteq> listId) (taskT d),
                     taskAssigneeT := filter (\<lambda>a. a_task_id a \<notin> set gone) (taskAssigneeT d)\<rparr>;
              d2 = d1\<lparr>listT := updateMany
                     (\<lambda>r. l_board_id r = l_board_id l \<and> l_position r > l_position l)
                     (\<lambda>r. r\<lparr>l_position := l_position r - 1\<rparr>) (listT d1)\<rparr>;
              d3 = logActivity \<lparr>g_board_id = l_board_id l, g_user_id = userId, g_task_id = None,
                     g_action_type = ''delete'', g_entity_type = ''list'',
                     g_changes = [(''name'', JStr (l_name l))]\<rparr> d2
          in (d3, Inr ()))"

section \<open>Task service\<close>

record task_input =
  ti_list_id :: string
  ti_title :: string
  ti_description :: "string option"
  ti_priority :: "string option"
  ti_due_date :: "string option"

definition tasksOfList :: "db \<Rightarrow> string \<Rightarrow> task list" where
  "tasksOfList d lid = filter (\<lambda>t. t_list_id t = lid) (taskT d)"

definition createTask ::
  "db \<Rightarrow> string \<Rightarrow> task_input \<Rightarrow> string \<Rightarrow> db \<times> (app_error + task)" where
  "createTask d userId data tid =
     (case findList d (ti_list_id data) of
        None \<Rightarrow> (d, Inl (createError 404 ''NOT_FOUND'' ''List not found''))
      | Some l \<Rightarrow>
          (case findBoard d (l_board_id l) of
             None \<Rightarrow> (d, Inl runtime_error)
           | Some b \<Rightarrow>
               let np = nextPosition (map t_position (tasksOfList d (ti_list_id data))) in
               if tid \<in> set (map t_id (taskT d)) then (d, Inl unique_violation)
               else
                 let t = \<lparr>t_id = tid, t_title = ti_title data, t_description = ti_description data,
                          t_priority = (case ti_priority data of None \<Rightarrow> ''medium'' | Some v \<Rightarrow> v),
                          t_due_date = (if falsy (ti_due_date data) then None else ti_due_date data),
                          t_position = np, t_list_id = ti_list_id data, t_created_by = userId\<rparr>;
                     d1 = d\<lparr>taskT := taskT d @ [t]\<rparr>;
                     d2 = logActivity \<lparr>g_board_id = b_id b, g_user_id = userId, g_task_id = Some tid,
                            g_action_type = ''create'', g_entity_type = ''task'',
                            g_changes = [(''title'', JStr (t_title t)), (''list'', JStr (l_name l))]\<rparr> d1
                 in (d2, Inr t)))"

text \<open>
  The activity entry is written first, then the task row is deleted (its assignments go
  with it).  No other task row is touched.
\<close>

definition deleteTask :: "db \<Rightarrow> string \<Rightarrow> string \<Rightarrow> db \<times> (app_error + unit)" where
  "deleteTask d taskId userId =
     (case findTask d taskId of
        None \<Rightarrow> (d, Inl (createError 404 ''NOT_FOUND'' ''Task not found''))
      | Some t \<Rightarrow>
          (case findList d (t_list_id t) of
             None \<Rightarrow> (d, Inl runtime_error)
           | Some l \<Rightarrow>
               let d1 = logActivity \<lparr>g_board_id = l_board_id l, g_user_id = userId,
                          g_task_id = Some taskId,
                          g_action_type = ''delete'', g_entity_type = ''task'',
                          g_changes = [(''title'', JStr (t_title t)), (''list'', JStr (l_name l))]\<rparr> d;
                   d2 = d1\<lparr>taskT := filter (\<lambda>r. t_id r \<noteq> taskId) (taskT d1),
                          taskAssigneeT := filter (\<lambda>a. a_task_id a \<noteq> taskId) (taskAssigneeT d1)\<rparr>
               in (d2, Inr ())))"

text \<open>The three steps of the move transaction, on the task table.\<close>

definition moveRows :: "task \<Rightarrow> string \<Rightarrow> int \<Rightarrow> task list \<Rightarrow> task list" where
  "moveRows t list_id p rows =
     (let movingToNewList = (t_list_id t \<noteq> list_id);
          s1 =
            (if movingToNewList
             then updateMany (\<lambda>r. t_list_id r = t_list_id t \<and> t_position r > t_position t)
                    (\<lambda>r. r\<lparr>t_position := t_position r - 1\<rparr>) rows
             else if p > t_position t
             then updateMany (\<lambda>r. t_list_id r = t_list_id t \<and>
                                   (t_position r > t_position t \<and> t_position r \<le> p) \<and> t_id r \<noteq> t_id t)
                    (\<lambda>r. r\<lparr>t_position := t_position r - 1\<rparr>) rows
             else if p < t_position t
             then updateMany (\<lambda>r. t_list_id r = t_list_id t \<and>
                                   (t_position r \<ge> p \<and> t_position r < t_position t) \<and> t_id r \<noteq> t_id t)
                    (\<lambda>r. r\<lparr>t_position := t_position r + 1\<rparr>) rows
             else rows);
          s2 =
            (if movingToNewList
             then updateMany (\<lambda>r. t_list_id r = list_id \<and> t_position r \<ge> p)
                    (\<lambda>r. r\<lparr>t_position := t_position r + 1\<rparr>) s1
             else s1)
      in updateMany (\<lambda>r. t_id r = t_id t) (\<lambda>r. r\<lparr>t_list_id := list_id, t_position := p\<rparr>) s2)"

definition moveTask ::
  "db \<Rightarrow> string \<Rightarrow> string \<Rightarrow> string \<Rightarrow> int \<Rightarrow> db \<times> (app_error + task option)" where
  "moveTask d taskId userId list_id p =
     (case findTask d taskId of
        None \<Rightarrow> (d, Inl (createError 404 ''NOT_FOUND'' ''Task not found''))
      | Some t \<Rightarrow>
          (case findList d (t_list_id t) of
             None \<Rightarrow> (d, Inl runtime_error)
           | Some l \<Rightarrow>
               (case findList d list_id of
                  None \<Rightarrow> (d, Inl (createError 404 ''NOT_FOUND'' ''Target list not found''))
                | Some targetList \<Rightarrow>
                    if l_board_id targetList \<noteq> l_board_id l
                    then (d, Inl (createError 400 ''BAD_REQUEST''
                                    ''Cannot move task to a list on a different board''))
                    else
                      let d1 = d\<lparr>taskT := moveRows t list_id p (taskT d)\<rparr>;
                          updated = findTask d1 taskId;
                          d2 = logActivity \<lparr>g_board_id = l_board_id l, g_user_id = userId,
                                 g_task_id = Some taskId,
                                 g_action_type = ''update'', g_entity_type = ''task'',
                                 g_changes = [(''action'', JStr ''moved''),
                                              (''from_list'', JStr (l_name l)),
                                              (''to_list'', JStr (l_name targetList)),
                                              (''new_position'', JNum p)]\<rparr> d1
                      in (d2, Inr updated))))"

definition assignUser ::
  "db \<Rightarrow> string \<Rightarrow> string \<Rightarrow> string \<Rightarrow> string \<Rightarrow> db \<times> (app_error + task_assignee)" where
  "assignUser d taskId userId assigneeId aid =
     (case findTask d taskId of
        None \<Rightarrow> (d, Inl (createError 404 ''NOT_FOUND'' ''Task not found''))
      | Some t \<Rightarrow>
          (case findList d (t_list_id t) of
             None \<Rightarrow> (d, Inl runtime_error)
           | Some l \<Rightarrow>
               (case findBoard d (l_board_id l) of
                  None \<Rightarrow> (d, Inl runtime_error)
                | Some b \<Rightarrow>
                    if b_owner_id b \<noteq> assigneeId \<and> findMember d (l_board_id l) assigneeId = None
                    then (d, Inl (createError 400 ''BAD_REQUEST'' ''User is not a member of this board''))
                    else if findAssignee d taskId assigneeId \<noteq> None
                    then (d, Inl (createError 409 ''CONFLICT'' ''User is already assigned to this task''))
                    else if aid \<in> set (map a_id (taskAssigneeT d)) then (d, Inl unique_violation)
                    else
                      let a = \<lparr>a_id = aid, a_task_id = taskId, a_user_id = assigneeId\<rparr>;
                          d1 = d\<lparr>taskAssigneeT := taskAssigneeT d @ [a]\<rparr>;
                          d2 = logActivity \<lparr>g_board_id = l_board_id l, g_user_id = userId,
                                 g_task_id = Some taskId,
                                 g_action_type = ''create'', g_entity_type = ''task'',
                                 g_changes = [(''action'', JStr ''user_assigned''),
                                              (''assignee_id'', JStr assigneeId)]\<rparr> d1
                      in (d2, Inr a))))"

definition unassignUser :: "db \<Rightarrow> string \<Rightarrow> string \<Rightarrow> string \<Rightarrow> db \<times> (app_error + unit)" where
  "unassignUser d taskId userId assigneeId =
     (case findTask d taskId of
        None \<Rightarrow> (d, Inl (createError 404 ''NOT_FOUND'' ''Task not found''))
      | Some t \<Rightarrow>
          (case findList d (t_list_id t) of
             None \<Rightarrow> (d, Inl runtime_error)
           | Some l \<Rightarrow>
               (case findAssignee d taskId assigneeId of
                  None \<Rightarrow> (d, Inl (createError 404 ''NOT_FOUND'' ''Assignment not found''))
                | Some a \<Rightarrow>
                    let d1 = d\<lparr>taskAssigneeT := filter (\<lambda>x. a_id x \<noteq> a_id a) (taskAssigneeT d)\<rparr>;
                        d2 = logActivity \<lparr>g_board_id = l_board_id l, g_user_id = userId,
                               g_task_id = Some taskId,
                               g_action_type = ''delete'', g_entity_type = ''task'',
                               g_changes = [(''action'', JStr ''user_unassigned''),
                                            (''assignee_id'', JStr assigneeId)]\<rparr> d1
                    in (d2, Inr ()))))"

section \<open>User service\<close>











section \<open>An example store\<close>

text \<open>
  Two boards: \<open>b1\<close>, owned by alice, with bob as admin and carol as viewer, three
  lists and four tasks; \<open>b2\<close>, owned by bob, with one list.  dave is on no board.
\<close>

text \<open>
  The code points of an ASCII literal; lower-casing, and an order, on ASCII text.  They
  stand for the language's and the database's functions in the examples.
\<close>

definition codes :: "string \<Rightarrow> ustring" where
  "codes s = map of_char s"




definition example_store :: db where
  "example_store = \<lparr>
     profileT = [
       \<lparr>p_id = ''alice'', p_email = codes ''alice@example.com'', p_first_name = codes ''Alice'', p_last_name = codes ''Johnson'', p_avatar_url = None, p_is_active = True\<rparr>,
       \<lparr>p_id = ''bob'', p_email = codes ''bob@example.com'', p_first_name = codes ''Bob'', p_last_name = codes ''Smith'', p_avatar_url = None, p_is_active = True\<rparr>,
       \<lparr>p_id = ''carol'', p_email = codes ''carol@example.com'', p_first_name = codes ''Carol'', p_last_name = codes ''Brown'', p_avatar_url = None, p_is_active = True\<rparr>,
       \<lparr>p_id = ''dave'', p_email = codes ''dave@example.com'', p_first_name = codes ''Dave'', p_last_name = codes ''Alison'', p_avatar_url = None, p_is_active = True\<rparr>],
     boardT = [
       \<lparr>b_id = ''b1'', b_name = ''B'', b_description = None, b_color = ''#4472C4'', b_owner_id = ''alice''\<rparr>,
       \<lparr>b_id = ''b2'', b_name = ''Other'', b_description = None, b_color = ''#4472C4'', b_owner_id = ''bob''\<rparr>],
     boardMemberT = [
       \<lparr>m_id = ''m1'', m_board_id = ''b1'', m_user_id = ''bob'', m_role = ''admin''\<rparr>,
       \<lparr>m_id = ''m2'', m_board_id = ''b1'', m_user_id = ''carol'', m_role = ''viewer''\<rparr>],
     listT = [
       \<lparr>l_id = ''l0'', l_name = ''To Do'', l_position = 0, l_board_id = ''b1''\<rparr>,
       \<lparr>l_id = ''l1'', l_name = ''In Progress'', l_position = 1, l_board_id = ''b1''\<rparr>,
       \<lparr>l_id = ''l2'', l_name = ''Done'', l_position = 2, l_board_id = ''b1''\<rparr>,
       \<lparr>l_id = ''k0'', l_name = ''To Do'', l_position = 0, l_board_id = ''b2''\<rparr>],
     taskT = [
       \<lparr>t_id = ''t0'', t_title = ''A'', t_description = None, t_priority = ''medium'', t_due_date = None, t_position = 0, t_list_id = ''l0'', t_created_by = ''alice''\<rparr>,
       \<lparr>t_id = ''t1'', t_title = ''B'', t_description = None, t_priority = ''medium'', t_due_date = None, t_position = 1, t_list_id = ''l0'', t_created_by = ''alice''\<rparr>,
       \<lparr>t_id = ''t2'', t_title = ''C'', t_description = None, t_priority = ''medium'', t_due_date = None, t_position = 2, t_list_id = ''l0'', t_created_by = ''alice''\<rparr>,
       \<lparr>t_id = ''t3'', t_title = ''D'', t_description = None, t_priority = ''medium'', t_due_date = None, t_position = 0, t_list_id = ''l1'', t_created_by = ''bob''\<rparr>],
     taskAssigneeT = [\<lparr>a_id = ''a1'', a_task_id = ''t0'', a_user_id = ''bob''\<rparr>],
     activityLogT = []\<rparr>"

section \<open>Auxiliary definitions\<close>

text \<open>
  The store reached from the example store when carol is assigned to task \<open>t0\<close> and
  then removed from the board.
\<close>

definition store_after_removal :: db where
  "store_after_removal =
     fst (removeMember (fst (assignUser example_store ''t0'' ''alice'' ''carol'' ''a2''))
            ''b1'' ''alice'' ''carol'')"

text \<open>Referential integrity: every list row belongs to a board of the store.\<close>

definition fkListBoard :: "db \<Rightarrow> bool" where
  "fkListBoard d = list_all (\<lambda>l. l_board_id l \<in> set (map b_id (boardT d))) (listT d)"


text \<open>
  Dense positions: the positions of a scope are \<open>0, \<dots>, n - 1\<close>, each once, where
  \<open>n\<close> is the number of rows in the scope.
\<close>

definition dense :: "int list \<Rightarrow> bool" where
  "dense ps \<longleftrightarrow> distinct ps \<and> set ps = {0..<int (length ps)}"

definition listsDense :: "db \<Rightarrow> string \<Rightarrow> bool" where
  "listsDense d bid = dense (map l_position (listsOfBoard d bid))"

definition tasksDense :: "db \<Rightarrow> string \<Rightarrow> bool" where
  "tasksDense d lid = dense (map t_position (tasksOfList d lid))"

text \<open>
  The shift of a sibling's position when an element moves from \<open>old\<close> to \<open>new\<close>
  within one scope: the siblings after \<open>old\<close> up to \<open>new\<close> move down by one, those
  from \<open>new\<close> up to before \<open>old\<close> move up by one, the others stay.
\<close>

definition shiftWithin :: "int \<Rightarrow> int \<Rightarrow> int \<Rightarrow> int" where
  "shiftWithin old new p =
     (if new > old \<and> old < p \<and> p \<le> new then p - 1
      else if new < old \<and> new \<le> p \<and> p < old then p + 1
      else p)"




section \<open>Properties\<close>

subsection \<open>Authorization gate\<close>




subsection \<open>Moving a task to another board\<close>

text \<open>
  Claim C10: when the target list exists but lies on another board than the task's
  current list, \<open>moveTask\<close> throws BAD_REQUEST and the store is returned as it
  was, so no task has changed its list or position.
\<close>

theorem C10_moveTask_other_board:
  assumes "findTask d taskId = Some t"
    and "findList d (t_list_id t) = Some l"
    and "findList d list_id = Some targetList"
    and "l_board_id targetList \<noteq> l_board_id l"
  shows "moveTask d taskId userId list_id p =
           (d, Inl (createError 400 ''BAD_REQUEST''
                      ''Cannot move task to a list on a different board''))"
  using assms by (simp add: moveTask_def)

theorem C10_moveTask_other_board_witness:
  "findTask example_store ''t0'' \<noteq> None \<and> findList example_store ''k0'' \<noteq> None \<and>
   moveTask example_store ''t0'' ''alice'' ''k0'' 0 =
     (example_store, Inl (createError 400 ''BAD_REQUEST''
                     ''Cannot move task to a list on a different board''))"
proof -
  have t: "findTask example_store ''t0'' = Some (hd (taskT example_store))"
    by (simp add: findTask_def example_store_def)
  have l: "findList example_store (t_list_id (hd (taskT example_store))) = Some (hd (listT example_store))"
    by (simp add: findList_def example_store_def)
  have k: "findList example_store ''k0'' = Some (last (listT example_store))"
    by (simp add: findList_def example_store_def)
  have ne: "l_board_id (last (listT example_store)) \<noteq> l_board_id (hd (listT example_store))"
    by (simp add: example_store_def)
  show ?thesis
    using C10_moveTask_other_board [OF t l k ne, of "''alice''" 0] t k by simp
qed

subsection \<open>The owner and the member rows\<close>

text \<open>
  Claim C8, as the services decide it.  On an existing board, \<open>removeMember\<close> with
  the owner as target fails with BAD_REQUEST when the requester is the owner or an admin
  member, and with FORBIDDEN for every other requester, whose permission is checked first.
  \<open>addMember\<close> with the owner as new member fails with BAD_REQUEST when the requester
  is the owner or an admin member (NOT_FOUND if the owner had no profile row), and with
  FORBIDDEN for every other requester.  In every case the store, and so the member set,
  is unchanged.
\<close>

theorem C8_owner_membership:
  assumes "findBoard d boardId = Some b"
  shows "fst (removeMember d boardId userId (b_owner_id b)) = d \<and>
         snd (removeMember d boardId userId (b_owner_id b)) =
           (if userId = b_owner_id b \<or>
               (\<exists>r. findMember d boardId userId = Some r \<and> m_role r = ''admin'')
            then Inl (createError 400 ''BAD_REQUEST'' ''Cannot remove the board owner'')
            else Inl (createError 403 ''FORBIDDEN'' ''Insufficient permissions to remove members'')) \<and>
         fst (addMember d boardId userId (b_owner_id b) role mid) = d \<and>
         snd (addMember d boardId userId (b_owner_id b) role mid) =
           (if userId = b_owner_id b \<or>
               (\<exists>r. findMember d boardId userId = Some r \<and> m_role r = ''admin'')
            then (if findProfile d (b_owner_id b) = None
                  then Inl (createError 404 ''NOT_FOUND'' ''User not found'')
                  else Inl (createError 400 ''BAD_REQUEST'' ''Cannot add the board owner as a member''))
            else Inl (createError 403 ''FORBIDDEN'' ''Only the owner or admin can add members''))"
  using assms
  by (auto simp: removeMember_def addMember_def split: option.splits)

theorem C8_owner_membership_witness:
  "removeMember example_store ''b1'' ''alice'' ''alice'' =
     (example_store, Inl (createError 400 ''BAD_REQUEST'' ''Cannot remove the board owner'')) \<and>
   removeMember example_store ''b1'' ''bob'' ''alice'' =
     (example_store, Inl (createError 400 ''BAD_REQUEST'' ''Cannot remove the board owner'')) \<and>
   addMember example_store ''b1'' ''alice'' ''alice'' None ''m9'' =
     (example_store, Inl (createError 400 ''BAD_REQUEST'' ''Cannot add the board owner as a member''))"
proof -
  have b: "findBoard example_store ''b1'' = Some (hd (boardT example_store))"
    by (simp add: findBoard_def example_store_def)
  have o: "b_owner_id (hd (boardT example_store)) = ''alice''"
    by (simp add: example_store_def)
  have m: "findMember example_store ''b1'' ''bob'' = Some (hd (boardMemberT example_store))"
    "m_role (hd (boardMemberT example_store)) = ''admin''"
    by (simp_all add: findMember_def example_store_def)
  have p: "findProfile example_store ''alice'' \<noteq> None"
    by (simp add: findProfile_def example_store_def)
  show ?thesis
    using C8_owner_membership [OF b, of "''alice''" None "''m9''"]
      C8_owner_membership [OF b, of "''bob''" None "''m9''"] o m p
    by (simp add: prod_eq_iff)
qed

theorem C8_owner_membership_counterexample:
  "findBoard example_store ''b1'' = Some (hd (boardT example_store)) \<and>
   b_owner_id (hd (boardT example_store)) = ''alice'' \<and>
   snd (removeMember example_store ''b1'' ''carol'' ''alice'') =
     Inl (createError 403 ''FORBIDDEN'' ''Insufficient permissions to remove members'') \<and>
   snd (removeMember example_store ''b1'' ''carol'' ''alice'') \<noteq>
     Inl (createError 400 ''BAD_REQUEST'' ''Cannot remove the board owner'')"
  by (simp add: removeMember_def findBoard_def findMember_def example_store_def createError_def)

subsection \<open>Task assignment\<close>

text \<open>
  Claim C7, as the service decides it, for a task whose list and board exist.
  \<open>assignUser\<close> fails with BAD_REQUEST, creating nothing, when the assignee is
  neither the owner nor a member; it fails with CONFLICT, changing nothing, when the
  assignee is the owner or a member and the pair is already assigned (membership is
  checked before the duplicate); \<open>unassignUser\<close> on a pair that is not assigned fails
  with NOT_FOUND.
\<close>

theorem C7_assignment_rules:
  assumes "findTask d taskId = Some t"
    and "findList d (t_list_id t) = Some l"
    and "findBoard d (l_board_id l) = Some b"
  shows "(b_owner_id b \<noteq> assigneeId \<and> findMember d (l_board_id l) assigneeId = None \<longrightarrow>
            assignUser d taskId userId assigneeId aid =
              (d, Inl (createError 400 ''BAD_REQUEST'' ''User is not a member of this board''))) \<and>
         ((b_owner_id b = assigneeId \<or> findMember d (l_board_id l) assigneeId \<noteq> None) \<and>
          findAssignee d taskId assigneeId \<noteq> None \<longrightarrow>
            assignUser d taskId userId assigneeId aid =
              (d, Inl (createError 409 ''CONFLICT'' ''User is already assigned to this task''))) \<and>
         (findAssignee d taskId assigneeId = None \<longrightarrow>
            unassignUser d taskId userId assigneeId =
              (d, Inl (createError 404 ''NOT_FOUND'' ''Assignment not found'')))"
  using assms by (auto simp: assignUser_def unassignUser_def)

theorem C7_assignment_rules_witness:
  "assignUser example_store ''t0'' ''alice'' ''dave'' ''a2'' =
     (example_store, Inl (createError 400 ''BAD_REQUEST'' ''User is not a member of this board'')) \<and>
   assignUser example_store ''t0'' ''alice'' ''bob'' ''a2'' =
     (example_store, Inl (createError 409 ''CONFLICT'' ''User is already assigned to this task'')) \<and>
   unassignUser example_store ''t0'' ''alice'' ''carol'' =
     (example_store, Inl (createError 404 ''NOT_FOUND'' ''Assignment not found''))"
proof -
  have t: "findTask example_store ''t0'' = Some (hd (taskT example_store))"
    by (simp add: findTask_def example_store_def)
  have l: "findList example_store (t_list_id (hd (taskT example_store))) = Some (hd (listT example_store))"
    by (simp add: findList_def example_store_def)
  have b: "findBoard example_store (l_board_id (hd (listT example_store))) = Some (hd (boardT example_store))"
    by (simp add: findBoard_def example_store_def)
  have f: "b_owner_id (hd (boardT example_store)) = ''alice''"
    "findMember example_store (l_board_id (hd (listT example_store))) ''dave'' = None"
    "findMember example_store (l_board_id (hd (listT example_store))) ''bob'' \<noteq> None"
    "findAssignee example_store ''t0'' ''bob'' \<noteq> None"
    "findAssignee example_store ''t0'' ''carol'' = None"
    by (simp_all add: findMember_def findAssignee_def example_store_def)
  show ?thesis
    using C7_assignment_rules [OF t l b, of "''dave''" "''alice''" "''a2''"]
      C7_assignment_rules [OF t l b, of "''bob''" "''alice''" "''a2''"]
      C7_assignment_rules [OF t l b, of "''carol''" "''alice''" "''a2''"] f
    by simp
qed

theorem C7_assignment_rules_counterexample:
  "findTask store_after_removal ''t0'' \<noteq> None \<and>
   findAssignee store_after_removal ''t0'' ''carol'' =
     Some \<lparr>a_id = ''a2'', a_task_id = ''t0'', a_user_id = ''carol''\<rparr> \<and>
   snd (assignUser store_after_removal ''t0'' ''alice'' ''carol'' ''a3'') =
     Inl (createError 400 ''BAD_REQUEST'' ''User is not a member of this board'') \<and>
   snd (assignUser store_after_removal ''t0'' ''alice'' ''carol'' ''a3'') \<noteq>
     Inl (createError 409 ''CONFLICT'' ''User is already assigned to this task'')"
  by (simp add: store_after_removal_def assignUser_def removeMember_def findTask_def findList_def
      findBoard_def findMember_def findAssignee_def logActivity_def example_store_def Let_def createError_def)

subsection \<open>Board creation\<close>

lemma listsOfBoard_fresh:
  assumes "fkListBoard d" and "bid \<notin> set (map b_id (boardT d))"
  shows "filter (\<lambda>l. l_board_id l = bid) (listT d) = []"
  using assms by (auto simp: fkListBoard_def list_all_iff filter_empty_conv)

text \<open>
  Claim C6: after a successful \<open>createBoard\<close> the lists of the new board are exactly
  the three lists returned, named To Do, In Progress and Done, at positions 0, 1 and 2.
\<close>

theorem C6_createBoard_default_lists:
  assumes "createBoard d userId data bid lids = (d', Inr (b, ls))"
    and "fkListBoard d"
  shows "b_id b = bid \<and> listsOfBoard d' (b_id b) = ls \<and>
         map (\<lambda>l. (l_name l, l_position l)) ls =
           [(''To Do'', 0), (''In Progress'', 1), (''Done'', 2)] \<and>
         list_all (\<lambda>l. l_board_id l = bid) ls"
proof -
  obtain i0 i1 i2 where lids: "lids = (i0, i1, i2)"
    by (cases lids) auto
  from assms(1) have fresh: "bid \<notin> set (map b_id (boardT d))"
    by (auto simp: createBoard_def Let_def split: if_splits)
  have old: "filter (\<lambda>l. l_board_id l = bid) (listT d) = []"
    using listsOfBoard_fresh [OF assms(2) fresh] .
  from assms(1) fresh old show ?thesis
    by (auto simp: createBoard_def Let_def lids defaultLists_def listsOfBoard_def logActivity_def
        split: if_splits)
qed

theorem C6_createBoard_default_lists_witness:
  "fkListBoard example_store \<and>
   map (\<lambda>l. (l_name l, l_position l))
     (listsOfBoard
        (fst (createBoard example_store ''alice''
               \<lparr>bi_name = ''N'', bi_description = None, bi_color = None\<rparr> ''b3'' (''x0'', ''x1'', ''x2'')))
        ''b3'') =
     [(''To Do'', 0), (''In Progress'', 1), (''Done'', 2)]"
proof -
  let ?r = "createBoard example_store ''alice''
               \<lparr>bi_name = ''N'', bi_description = None, bi_color = None\<rparr> ''b3'' (''x0'', ''x1'', ''x2'')"
  have fk: "fkListBoard example_store"
    by (simp add: fkListBoard_def example_store_def)
  have ok: "snd ?r = Inr (\<lparr>b_id = ''b3'', b_name = ''N'', b_description = None, b_color = ''#4472C4'',
                b_owner_id = ''alice''\<rparr>, defaultLists ''b3'' (''x0'', ''x1'', ''x2''))"
    by (simp add: createBoard_def defaultLists_def listsOfBoard_def example_store_def Let_def)
  have "?r = (fst ?r, Inr (\<lparr>b_id = ''b3'', b_name = ''N'', b_description = None, b_color = ''#4472C4'',
                b_owner_id = ''alice''\<rparr>, defaultLists ''b3'' (''x0'', ''x1'', ''x2'')))"
    using ok by (simp add: prod_eq_iff)
  from C6_createBoard_default_lists [OF this fk] fk show ?thesis
    by simp
qed

subsection \<open>User search\<close>
















subsection \<open>Dense positions\<close>

lemma denseI: "distinct ps \<Longrightarrow> set ps = {0..<int n} \<Longrightarrow> dense ps"
proof -
  assume d: "distinct ps" and s: "set ps = {0..<int n}"
  have "length ps = card (set ps)" using d by (simp add: distinct_card)
  also have "\<dots> = n" by (simp add: s)
  finally show ?thesis using d s by (simp add: dense_def)
qed

lemma dense_bounds: "dense ps \<Longrightarrow> p \<in> set ps \<Longrightarrow> 0 \<le> p \<and> p < int (length ps)"
  by (auto simp: dense_def)

lemma dense_mapI:
  assumes "distinct zs" and "inj_on g (set zs)" and "g ` set zs = {0..<int n}"
  shows "dense (map g zs)"
proof (rule denseI)
  show "distinct (map g zs)" using assms(1,2) unfolding distinct_map by blast
  show "set (map g zs) = {0..<int n}" using assms(3) by simp
qed

lemma close_gap_image:
  assumes "0 \<le> old" and "old < int (Suc n)"
  shows "(\<lambda>p. if p > old then p - 1 else p) ` ({0..<int (Suc n)} - {old}) = {0..<int n}"
proof (intro set_eqI iffI)
  fix y assume "y \<in> (\<lambda>p. if p > old then p - 1 else p) ` ({0..<int (Suc n)} - {old})"
  with assms show "y \<in> {0..<int n}" by (auto split: if_splits)
next
  fix y assume y: "y \<in> {0..<int n}"
  show "y \<in> (\<lambda>p. if p > old then p - 1 else p) ` ({0..<int (Suc n)} - {old})"
  proof (cases "y < old")
    case True
    with y assms have "y \<in> {0..<int (Suc n)} - {old}" by auto
    moreover from True have "(if y > old then y - 1 else y) = y" by simp
    ultimately show ?thesis by (metis (lifting) image_eqI)
  next
    case False
    with y assms have "y + 1 \<in> {0..<int (Suc n)} - {old}" by auto
    moreover from False have "(if y + 1 > old then y + 1 - 1 else y + 1) = y" by simp
    ultimately show ?thesis by (metis (lifting) image_eqI)
  qed
qed

lemma dense_close_gap:
  assumes "dense (xs @ old # ys)"
  shows "dense (map (\<lambda>p. if p > old then p - 1 else p) (xs @ ys))"
proof -
  let ?n = "length xs + length ys"
  from assms have dist: "distinct (xs @ old # ys)"
    and set: "set (xs @ old # ys) = {0..<int (Suc ?n)}"
    by (simp_all add: dense_def)
  from dist have notin: "old \<notin> set xs" "old \<notin> set ys" and d2: "distinct (xs @ ys)"
    by auto
  from set notin have s2: "set (xs @ ys) = {0..<int (Suc ?n)} - {old}"
    by auto
  from dense_bounds [OF assms, of old] have oldr: "0 \<le> old" "old < int (Suc ?n)"
    by simp_all
  have inj: "inj_on (\<lambda>p. if p > old then p - 1 else p) (set (xs @ ys))"
    unfolding s2 by (auto simp: inj_on_def)
  have "dense (map (\<lambda>p. if p > old then p - 1 else p) (xs @ ys))"
    by (rule dense_mapI [OF d2 inj, of ?n]) (simp only: s2 close_gap_image [OF oldr])
  then show ?thesis .
qed

lemma make_room_image:
  assumes "0 \<le> new" and "new \<le> int n"
  shows "insert new ((\<lambda>p. if p \<ge> new then p + 1 else p) ` {0..<int n}) = {0..<int (Suc n)}"
proof (intro set_eqI iffI)
  fix y assume "y \<in> insert new ((\<lambda>p. if p \<ge> new then p + 1 else p) ` {0..<int n})"
  with assms show "y \<in> {0..<int (Suc n)}" by (auto split: if_splits)
next
  fix y assume y: "y \<in> {0..<int (Suc n)}"
  consider "y = new" | "y < new" | "y > new" by linarith
  then show "y \<in> insert new ((\<lambda>p. if p \<ge> new then p + 1 else p) ` {0..<int n})"
  proof cases
    case 1
    then show ?thesis by simp
  next
    case 2
    with y assms have "y \<in> {0..<int n}" by auto
    moreover from 2 have "(if y \<ge> new then y + 1 else y) = y" by simp
    ultimately show ?thesis by (metis (lifting) image_eqI insertI2)
  next
    case 3
    with y assms have "y - 1 \<in> {0..<int n}" by auto
    moreover from 3 have "(if y - 1 \<ge> new then y - 1 + 1 else y - 1) = y" by simp
    ultimately show ?thesis by (metis (lifting) image_eqI insertI2)
  qed
qed

lemma dense_make_room:
  assumes "dense (xs @ ys)" and "0 \<le> new" and "new \<le> int (length xs + length ys)"
  shows "dense (map (\<lambda>p. if p \<ge> new then p + 1 else p) xs @ new #
                map (\<lambda>p. if p \<ge> new then p + 1 else p) ys)"
proof (rule denseI)
  let ?h = "\<lambda>p::int. if p \<ge> new then p + 1 else p"
  let ?n = "length xs + length ys"
  from assms(1) have dist: "distinct (xs @ ys)" and set: "set (xs @ ys) = {0..<int ?n}"
    by (simp_all add: dense_def)
  have inj: "inj_on ?h A" for A
    by (auto simp: inj_on_def split: if_splits)
  have "distinct (map ?h (xs @ ys))"
    unfolding distinct_map using dist inj by blast
  moreover have "new \<notin> ?h ` B" for B
    by (auto split: if_splits)
  ultimately show "distinct (map ?h xs @ new # map ?h ys)"
    by (auto simp del: distinct_map)
  have "set (map ?h xs @ new # map ?h ys) = insert new (?h ` set (xs @ ys))"
    by auto
  also have "\<dots> = {0..<int (Suc ?n)}"
    unfolding set by (rule make_room_image [OF assms(2,3)])
  finally show "set (map ?h xs @ new # map ?h ys) = {0..<int (Suc ?n)}" .
qed

lemma shiftWithin_image:
  assumes "0 \<le> old" "old < int n" "0 \<le> new" "new < int n"
  shows "insert new (shiftWithin old new ` ({0..<int n} - {old})) = {0..<int n}"
proof (intro set_eqI iffI)
  fix y assume "y \<in> insert new (shiftWithin old new ` ({0..<int n} - {old}))"
  with assms show "y \<in> {0..<int n}"
    by (auto simp: shiftWithin_def split: if_splits)
next
  fix y assume y: "y \<in> {0..<int n}"
  show "y \<in> insert new (shiftWithin old new ` ({0..<int n} - {old}))"
  proof (cases "y = new")
    case True
    then show ?thesis by simp
  next
    case False
    define x where "x = (if new > old \<and> old \<le> y \<and> y < new then y + 1
                         else if new < old \<and> new < y \<and> y \<le> old then y - 1 else y)"
    from y False assms have "x \<in> {0..<int n} - {old}"
      by (auto simp: x_def)
    moreover from False have "shiftWithin old new x = y"
      by (auto simp: x_def shiftWithin_def)
    ultimately show ?thesis by (metis image_eqI insertI2)
  qed
qed

lemma dense_shiftWithin:
  assumes "dense (xs @ old # ys)" and "0 \<le> new" and "new < int (Suc (length xs + length ys))"
  shows "dense (map (shiftWithin old new) xs @ new # map (shiftWithin old new) ys)"
proof (rule denseI)
  let ?n = "Suc (length xs + length ys)"
  from assms(1) have dist: "distinct (xs @ old # ys)"
    and set: "set (xs @ old # ys) = {0..<int ?n}"
    by (simp_all add: dense_def)
  from dist have notin: "old \<notin> set xs" "old \<notin> set ys" and d2: "distinct (xs @ ys)"
    by auto
  from set notin have s2: "set (xs @ ys) = {0..<int ?n} - {old}"
    by auto
  from dense_bounds [OF assms(1), of old] have oldr: "0 \<le> old" "old < int ?n"
    by simp_all
  have inj: "inj_on (shiftWithin old new) (set (xs @ ys))"
    unfolding s2 by (auto simp: inj_on_def shiftWithin_def split: if_splits)
  have "distinct (map (shiftWithin old new) (xs @ ys))"
    unfolding distinct_map using d2 inj by blast
  moreover have "new \<notin> shiftWithin old new ` set (xs @ ys)"
    unfolding s2 by (auto simp: shiftWithin_def split: if_splits)
  ultimately show "distinct (map (shiftWithin old new) xs @ new # map (shiftWithin old new) ys)"
    by (auto simp del: distinct_map)
  have "set (map (shiftWithin old new) xs @ new # map (shiftWithin old new) ys) =
          insert new (shiftWithin old new ` set (xs @ ys))"
    by auto
  also have "\<dots> = {0..<int ?n}"
    unfolding s2 by (rule shiftWithin_image [OF oldr assms(2,3)])
  finally show "set (map (shiftWithin old new) xs @ new # map (shiftWithin old new) ys) = {0..<int ?n}" .
qed

lemma lastPosition_Max: "ps \<noteq> [] \<Longrightarrow> lastPosition ps = Some (Max (set ps))"
proof (cases ps)
  case Nil
  assume "ps \<noteq> []"
  with Nil show ?thesis by simp
next
  case (Cons p qs)
  have "Max (set (p # qs)) = fold max qs p"
    by (rule Max.set_eq_fold)
  with Cons show ?thesis by (simp add: lastPosition_def)
qed

lemma nextPosition_dense:
  assumes "dense ps"
  shows "nextPosition ps = int (length ps)"
proof (cases ps)
  case Nil
  then show ?thesis by (simp add: nextPosition_def lastPosition_def)
next
  case (Cons p qs)
  then have ne: "ps \<noteq> []" by simp
  from assms have set: "set ps = {0..<int (length ps)}" by (simp add: dense_def)
  from ne have "Max (set ps) = int (length ps) - 1"
    unfolding set by (intro Max_eqI) (auto simp: Cons)
  with ne show ?thesis by (simp add: nextPosition_def lastPosition_Max)
qed

lemma dense_append_next:
  assumes "dense ps"
  shows "dense (ps @ [nextPosition ps])"
proof (rule denseI)
  from assms have d: "distinct ps" and s: "set ps = {0..<int (length ps)}"
    by (simp_all add: dense_def)
  show "distinct (ps @ [nextPosition ps])"
    using d s by (simp add: nextPosition_dense [OF assms])
  show "set (ps @ [nextPosition ps]) = {0..<int (Suc (length ps))}"
    using s by (auto simp: nextPosition_dense [OF assms])
qed

subsection \<open>Positions of the lists of a board\<close>

lemma find_split:
  assumes "distinct (map key rows)" and "find (\<lambda>r. key r = k) rows = Some t"
  shows "\<exists>xs ys. rows = xs @ t # ys \<and> key t = k \<and>
           (\<forall>r \<in> set xs. key r \<noteq> k) \<and> (\<forall>r \<in> set ys. key r \<noteq> k)"
proof -
  from assms(2) obtain i where i: "i < length rows" "rows ! i = t" "key t = k"
    and before: "\<forall>j<i. key (rows ! j) \<noteq> k"
    unfolding find_Some_iff by auto
  let ?xs = "take i rows" and ?ys = "drop (Suc i) rows"
  have split: "rows = ?xs @ t # ?ys"
    using id_take_nth_drop [OF i(1)] i(2) by simp
  have xs: "\<forall>r \<in> set ?xs. key r \<noteq> k"
  proof
    fix r assume "r \<in> set ?xs"
    then obtain j where "j < length ?xs" "?xs ! j = r"
      by (auto simp: in_set_conv_nth)
    then have "j < i" "rows ! j = r"
      by simp_all
    with before show "key r \<noteq> k"
      by blast
  qed
  from assms(1) have "distinct (map key (?xs @ t # ?ys))"
    using split by simp
  then have "key t \<notin> key ` set ?ys"
    by auto
  with i(3) have ys: "\<forall>r \<in> set ?ys. key r \<noteq> k"
    by (metis image_eqI)
  from split i(3) xs ys show ?thesis by blast
qed

lemma updateMany_append:
  "updateMany c u (xs @ ys) = updateMany c u xs @ updateMany c u ys"
  by (simp add: updateMany_def)

lemma reorderLists_pointwise:
  assumes "p \<noteq> l_position l"
  shows "reorderLists l n p rows =
           map (\<lambda>r. if l_id r = l_id l then (setListName n r)\<lparr>l_position := p\<rparr>
                     else if l_board_id r = l_board_id l
                     then r\<lparr>l_position := shiftWithin (l_position l) p (l_position r)\<rparr>
                     else r) rows"
  using assms
  by (auto simp: reorderLists_def updateMany_def shiftWithin_def setListName_def Let_def
      split: option.splits)

lemma reorderLists_positions_rest:
  assumes "p \<noteq> l_position l" and "\<forall>r \<in> set rs. l_id r \<noteq> l_id l"
  shows "map l_position (filter (\<lambda>r. l_board_id r = l_board_id l) (reorderLists l n p rs)) =
           map (shiftWithin (l_position l) p)
             (map l_position (filter (\<lambda>r. l_board_id r = l_board_id l) rs))"
  using assms(2) unfolding reorderLists_pointwise [OF assms(1)]
  by (induction rs) auto

lemma reorderLists_append:
  "reorderLists l n p (xs @ ys) = reorderLists l n p xs @ reorderLists l n p ys"
  by (simp add: reorderLists_def updateMany_def Let_def)

lemma reorderLists_self:
  "map l_position (filter (\<lambda>r. l_board_id r = l_board_id l) (reorderLists l n p [l])) = [p]"
  by (simp add: reorderLists_def updateMany_def Let_def setListName_def split: option.splits)

lemma listsDense_reorder:
  assumes pk: "distinct (map l_id rows)"
    and found: "find (\<lambda>r. l_id r = listId) rows = Some l"
    and dense: "dense (map l_position (filter (\<lambda>r. l_board_id r = l_board_id l) rows))"
    and ne: "p \<noteq> l_position l"
    and range: "0 \<le> p" "p < int (length (filter (\<lambda>r. l_board_id r = l_board_id l) rows))"
  shows "dense (map l_position (filter (\<lambda>r. l_board_id r = l_board_id l) (reorderLists l n p rows)))"
proof -
  let ?S = "\<lambda>r. l_board_id r = l_board_id l"
  from find_split [OF pk found] obtain xs ys where rows: "rows = xs @ l # ys"
    and id: "l_id l = listId"
    and xs: "\<forall>r \<in> set xs. l_id r \<noteq> listId" and ys: "\<forall>r \<in> set ys. l_id r \<noteq> listId"
    by blast
  let ?P = "\<lambda>rs. map l_position (filter ?S rs)"
  have before: "?P rows = ?P xs @ l_position l # ?P ys"
    by (simp add: rows)
  from xs ys id have xs': "\<forall>r \<in> set xs. l_id r \<noteq> l_id l" and ys': "\<forall>r \<in> set ys. l_id r \<noteq> l_id l"
    by simp_all
  have parts: "reorderLists l n p rows =
      reorderLists l n p xs @ reorderLists l n p [l] @ reorderLists l n p ys"
    using reorderLists_append [of l n p xs "[l] @ ys"] reorderLists_append [of l n p "[l]" ys]
    by (simp add: rows)
  have after: "?P (reorderLists l n p rows) =
      map (shiftWithin (l_position l) p) (?P xs) @ p # map (shiftWithin (l_position l) p) (?P ys)"
    by (simp add: parts reorderLists_positions_rest [OF ne xs']
        reorderLists_positions_rest [OF ne ys'] reorderLists_self)
  from range have range': "p < int (Suc (length (?P xs) + length (?P ys)))"
    by (simp add: rows)
  from dense have "dense (?P xs @ l_position l # ?P ys)"
    by (simp only: before)
  from dense_shiftWithin [OF this range(1) range'] show ?thesis
    by (simp only: after)
qed

lemma findList_id: "findList d listId = Some l \<Longrightarrow> l_id l = listId"
  by (auto simp: findList_def find_Some_iff)

lemma rename_positions:
  "map l_position (filter (\<lambda>r. l_board_id r = b) (updateMany c (setListName n) rs)) =
     map l_position (filter (\<lambda>r. l_board_id r = b) rs)"
  by (induction rs) (auto simp: updateMany_def setListName_def split: option.splits)

lemma listsDense_updateList:
  assumes pk: "distinct (map l_id (listT d))"
    and found: "findList d listId = Some l"
    and dense: "listsDense d (l_board_id l)"
    and range: "\<And>p. lu_position data = Some p \<Longrightarrow>
                  0 \<le> p \<and> p < int (length (listsOfBoard d (l_board_id l)))"
  shows "listsDense (fst (updateList d listId userId data)) (l_board_id l)"
proof (cases "lu_position data \<noteq> None \<and> the (lu_position data) \<noteq> l_position l")
  case True
  then obtain p where p: "lu_position data = Some p" "p \<noteq> l_position l"
    by auto
  from found have f: "find (\<lambda>r. l_id r = listId) (listT d) = Some l"
    by (simp add: findList_def)
  from dense have dn: "dense (map l_position (filter (\<lambda>r. l_board_id r = l_board_id l) (listT d)))"
    by (simp add: listsDense_def listsOfBoard_def)
  from range [OF p(1)] have r: "0 \<le> p"
    "p < int (length (filter (\<lambda>r. l_board_id r = l_board_id l) (listT d)))"
    by (simp_all add: listsOfBoard_def)
  from listsDense_reorder [OF pk f dn p(2) r, of "lu_name data"] show ?thesis
    using found p by (simp add: updateList_def Let_def logActivity_def listsDense_def listsOfBoard_def)
next
  case False
  with found dense show ?thesis
    by (auto simp: updateList_def Let_def logActivity_def listsDense_def listsOfBoard_def rename_positions)
qed

lemma close_gap_positions:
  "map l_position (filter (\<lambda>r. l_board_id r = b)
     (updateMany (\<lambda>r. l_board_id r = b \<and> l_position r > old)
        (\<lambda>r. r\<lparr>l_position := l_position r - 1\<rparr>) rs)) =
   map (\<lambda>p. if p > old then p - 1 else p) (map l_position (filter (\<lambda>r. l_board_id r = b) rs))"
  by (induction rs) (auto simp: updateMany_def)

lemma deleteList_listT:
  assumes "findList d listId = Some l"
  shows "listT (fst (deleteList d listId userId)) =
           updateMany (\<lambda>r. l_board_id r = l_board_id l \<and> l_position r > l_position l)
             (\<lambda>r. r\<lparr>l_position := l_position r - 1\<rparr>)
             (filter (\<lambda>r. l_id r \<noteq> listId) (listT d))"
  using assms by (simp add: deleteList_def Let_def logActivity_def)

lemma listsDense_deleteList:
  assumes pk: "distinct (map l_id (listT d))"
    and found: "findList d listId = Some l"
    and dense: "listsDense d (l_board_id l)"
  shows "listsDense (fst (deleteList d listId userId)) (l_board_id l)"
proof -
  let ?S = "\<lambda>r. l_board_id r = l_board_id l"
  let ?P = "\<lambda>rs. map l_position (filter ?S rs)"
  from found have f: "find (\<lambda>r. l_id r = listId) (listT d) = Some l"
    by (simp add: findList_def)
  from find_split [OF pk f] obtain xs ys where rows: "listT d = xs @ l # ys"
    and id: "l_id l = listId"
    and xs: "\<forall>r \<in> set xs. l_id r \<noteq> listId" and ys: "\<forall>r \<in> set ys. l_id r \<noteq> listId"
    by blast
  from xs ys id have rest: "filter (\<lambda>r. l_id r \<noteq> listId) (listT d) = xs @ ys"
    by (simp add: rows)
  from dense have "dense (?P xs @ l_position l # ?P ys)"
    by (simp add: listsDense_def listsOfBoard_def rows)
  from dense_close_gap [OF this] show ?thesis
    by (simp add: listsDense_def listsOfBoard_def deleteList_listT [OF found] rest
        close_gap_positions)
qed

lemma listsDense_createList:
  assumes "listsDense d boardId"
  shows "listsDense (fst (createList d boardId userId name lid)) boardId"
proof -
  from assms have "dense (map l_position (listsOfBoard d boardId))"
    by (simp add: listsDense_def)
  from dense_append_next [OF this] assms show ?thesis
    by (auto simp: createList_def Let_def logActivity_def listsDense_def listsOfBoard_def
        split: option.splits)
qed

lemma updateList_listT:
  assumes "findList d listId = Some l" and "lu_position data = Some new" and "new \<noteq> l_position l"
  shows "listT (fst (updateList d listId userId data)) = reorderLists l (lu_name data) new (listT d)"
  using assms by (simp add: updateList_def Let_def logActivity_def)

subsection \<open>Positions of the tasks of a list\<close>

lemma findTask_id: "findTask d taskId = Some t \<Longrightarrow> t_id t = taskId"
  by (auto simp: findTask_def find_Some_iff)

lemma moveRows_within:
  "moveRows t (t_list_id t) p rows =
     map (\<lambda>r. if t_id r = t_id t then r\<lparr>t_list_id := t_list_id t, t_position := p\<rparr>
               else if t_list_id r = t_list_id t
               then r\<lparr>t_position := shiftWithin (t_position t) p (t_position r)\<rparr>
               else r) rows"
  by (auto simp: moveRows_def updateMany_def shiftWithin_def Let_def)

lemma moveRows_across:
  assumes "list_id \<noteq> t_list_id t"
  shows "moveRows t list_id p rows =
     map (\<lambda>r. if t_id r = t_id t then r\<lparr>t_list_id := list_id, t_position := p\<rparr>
               else if t_list_id r = t_list_id t \<and> t_position r > t_position t
               then r\<lparr>t_position := t_position r - 1\<rparr>
               else if t_list_id r = list_id \<and> t_position r \<ge> p
               then r\<lparr>t_position := t_position r + 1\<rparr>
               else r) rows"
  using assms by (auto simp: moveRows_def updateMany_def Let_def)

lemma moveRows_append:
  "moveRows t list_id p (xs @ ys) = moveRows t list_id p xs @ moveRows t list_id p ys"
  by (simp add: moveRows_def updateMany_def Let_def)

lemma moveRows_self:
  "moveRows t list_id p [t] = [t\<lparr>t_list_id := list_id, t_position := p\<rparr>]"
  by (simp add: moveRows_def updateMany_def Let_def)

lemma moveRows_split:
  "moveRows t list_id p (xs @ t # ys) =
     moveRows t list_id p xs @ t\<lparr>t_list_id := list_id, t_position := p\<rparr> # moveRows t list_id p ys"
  using moveRows_append [of t list_id p xs "[t] @ ys"] moveRows_append [of t list_id p "[t]" ys]
  by (simp add: moveRows_self)

lemma within_positions_rest:
  assumes "\<forall>r \<in> set rs. t_id r \<noteq> t_id t"
  shows "map t_position (filter (\<lambda>r. t_list_id r = t_list_id t) (moveRows t (t_list_id t) p rs)) =
           map (shiftWithin (t_position t) p)
             (map t_position (filter (\<lambda>r. t_list_id r = t_list_id t) rs))"
  using assms unfolding moveRows_within
  by (induction rs) auto

lemma across_positions_source:
  assumes "list_id \<noteq> t_list_id t" and "\<forall>r \<in> set rs. t_id r \<noteq> t_id t"
  shows "map t_position (filter (\<lambda>r. t_list_id r = t_list_id t) (moveRows t list_id p rs)) =
           map (\<lambda>q. if q > t_position t then q - 1 else q)
             (map t_position (filter (\<lambda>r. t_list_id r = t_list_id t) rs))"
  using assms(2) unfolding moveRows_across [OF assms(1)]
  by (induction rs) (use assms(1) in auto)

lemma across_positions_target:
  assumes "list_id \<noteq> t_list_id t" and "\<forall>r \<in> set rs. t_id r \<noteq> t_id t"
  shows "map t_position (filter (\<lambda>r. t_list_id r = list_id) (moveRows t list_id p rs)) =
           map (\<lambda>q. if q \<ge> p then q + 1 else q)
             (map t_position (filter (\<lambda>r. t_list_id r = list_id) rs))"
  using assms(2) unfolding moveRows_across [OF assms(1)]
  by (induction rs) (use assms(1) in auto)

lemma tasks_within_dense:
  assumes pk: "distinct (map t_id rows)"
    and found: "find (\<lambda>r. t_id r = taskId) rows = Some t"
    and dense: "dense (map t_position (filter (\<lambda>r. t_list_id r = t_list_id t) rows))"
    and range: "0 \<le> p" "p < int (length (filter (\<lambda>r. t_list_id r = t_list_id t) rows))"
  shows "dense (map t_position (filter (\<lambda>r. t_list_id r = t_list_id t)
           (moveRows t (t_list_id t) p rows)))"
proof -
  let ?P = "\<lambda>rs. map t_position (filter (\<lambda>r. t_list_id r = t_list_id t) rs)"
  from find_split [OF pk found] obtain xs ys where rows: "rows = xs @ t # ys"
    and xs: "\<forall>r \<in> set xs. t_id r \<noteq> t_id t" and ys: "\<forall>r \<in> set ys. t_id r \<noteq> t_id t"
    by auto
  have after: "?P (moveRows t (t_list_id t) p rows) =
      map (shiftWithin (t_position t) p) (?P xs) @ p # map (shiftWithin (t_position t) p) (?P ys)"
    by (simp add: rows moveRows_split within_positions_rest [OF xs] within_positions_rest [OF ys])
  from range have range': "p < int (Suc (length (?P xs) + length (?P ys)))"
    by (simp add: rows)
  from dense have "dense (?P xs @ t_position t # ?P ys)"
    by (simp add: rows)
  from dense_shiftWithin [OF this range(1) range'] show ?thesis
    by (simp only: after)
qed

lemma tasks_across_source_dense:
  assumes pk: "distinct (map t_id rows)"
    and found: "find (\<lambda>r. t_id r = taskId) rows = Some t"
    and ne: "list_id \<noteq> t_list_id t"
    and dense: "dense (map t_position (filter (\<lambda>r. t_list_id r = t_list_id t) rows))"
  shows "dense (map t_position (filter (\<lambda>r. t_list_id r = t_list_id t)
           (moveRows t list_id p rows)))"
proof -
  let ?P = "\<lambda>rs. map t_position (filter (\<lambda>r. t_list_id r = t_list_id t) rs)"
  from find_split [OF pk found] obtain xs ys where rows: "rows = xs @ t # ys"
    and xs: "\<forall>r \<in> set xs. t_id r \<noteq> t_id t" and ys: "\<forall>r \<in> set ys. t_id r \<noteq> t_id t"
    by auto
  have after: "?P (moveRows t list_id p rows) =
      map (\<lambda>q. if q > t_position t then q - 1 else q) (?P xs @ ?P ys)"
    using ne
    by (simp add: rows moveRows_split across_positions_source [OF ne xs]
        across_positions_source [OF ne ys])
  from dense have "dense (?P xs @ t_position t # ?P ys)"
    by (simp add: rows)
  from dense_close_gap [OF this] show ?thesis
    by (simp only: after)
qed

lemma tasks_across_target_dense:
  assumes pk: "distinct (map t_id rows)"
    and found: "find (\<lambda>r. t_id r = taskId) rows = Some t"
    and ne: "list_id \<noteq> t_list_id t"
    and dense: "dense (map t_position (filter (\<lambda>r. t_list_id r = list_id) rows))"
    and range: "0 \<le> p" "p \<le> int (length (filter (\<lambda>r. t_list_id r = list_id) rows))"
  shows "dense (map t_position (filter (\<lambda>r. t_list_id r = list_id)
           (moveRows t list_id p rows)))"
proof -
  let ?P = "\<lambda>rs. map t_position (filter (\<lambda>r. t_list_id r = list_id) rs)"
  from find_split [OF pk found] obtain xs ys where rows: "rows = xs @ t # ys"
    and xs: "\<forall>r \<in> set xs. t_id r \<noteq> t_id t" and ys: "\<forall>r \<in> set ys. t_id r \<noteq> t_id t"
    by auto
  have after: "?P (moveRows t list_id p rows) =
      map (\<lambda>q. if q \<ge> p then q + 1 else q) (?P xs) @ p #
      map (\<lambda>q. if q \<ge> p then q + 1 else q) (?P ys)"
    by (simp add: rows moveRows_split across_positions_target [OF ne xs]
        across_positions_target [OF ne ys])
  from ne have before: "?P rows = ?P xs @ ?P ys"
    by (auto simp: rows)
  from range have range': "p \<le> int (length (?P xs) + length (?P ys))"
    using ne by (auto simp: rows)
  from dense have "dense (?P xs @ ?P ys)"
    by (simp only: before)
  from dense_make_room [OF this range(1) range'] show ?thesis
    by (simp only: after)
qed

lemma moveTask_taskT:
  assumes "findTask d taskId = Some t"
    and "findList d (t_list_id t) = Some l"
    and "findList d list_id = Some targetList"
    and "l_board_id targetList = l_board_id l"
  shows "taskT (fst (moveTask d taskId userId list_id p)) = moveRows t list_id p (taskT d)"
  using assms by (simp add: moveTask_def Let_def logActivity_def)

lemma moveTask_cases:
  assumes "findTask d taskId = Some t"
  shows "fst (moveTask d taskId userId list_id p) = d \<or>
         taskT (fst (moveTask d taskId userId list_id p)) = moveRows t list_id p (taskT d)"
  using assms by (auto simp: moveTask_def Let_def logActivity_def split: option.splits)

lemma tasksDense_moveTask:
  assumes pk: "distinct (map t_id (taskT d))"
    and found: "findTask d taskId = Some t"
    and src: "tasksDense d (t_list_id t)"
    and tgt: "tasksDense d list_id"
    and range: "0 \<le> p"
      "if list_id = t_list_id t then p < int (length (tasksOfList d list_id))
       else p \<le> int (length (tasksOfList d list_id))"
  shows "tasksDense (fst (moveTask d taskId userId list_id p)) (t_list_id t) \<and>
         tasksDense (fst (moveTask d taskId userId list_id p)) list_id"
proof -
  from found have f: "find (\<lambda>r. t_id r = taskId) (taskT d) = Some t"
    by (simp add: findTask_def)
  from moveTask_cases [OF found, of userId list_id p] show ?thesis
  proof
    assume "fst (moveTask d taskId userId list_id p) = d"
    with src tgt show ?thesis by simp
  next
    assume moved: "taskT (fst (moveTask d taskId userId list_id p)) = moveRows t list_id p (taskT d)"
    show ?thesis
    proof (cases "list_id = t_list_id t")
      case True
      from src have dn: "dense (map t_position (filter (\<lambda>r. t_list_id r = t_list_id t) (taskT d)))"
        by (simp add: tasksDense_def tasksOfList_def)
      from range True have r: "p < int (length (filter (\<lambda>r. t_list_id r = t_list_id t) (taskT d)))"
        by (simp add: tasksOfList_def)
      from tasks_within_dense [OF pk f dn range(1) r] True moved show ?thesis
        by (simp add: tasksDense_def tasksOfList_def)
    next
      case False
      from src have dn: "dense (map t_position (filter (\<lambda>r. t_list_id r = t_list_id t) (taskT d)))"
        by (simp add: tasksDense_def tasksOfList_def)
      from tgt have dt: "dense (map t_position (filter (\<lambda>r. t_list_id r = list_id) (taskT d)))"
        by (simp add: tasksDense_def tasksOfList_def)
      from range False have r: "p \<le> int (length (filter (\<lambda>r. t_list_id r = list_id) (taskT d)))"
        by (simp add: tasksOfList_def)
      from tasks_across_source_dense [OF pk f False dn, of p]
        tasks_across_target_dense [OF pk f False dt range(1) r]
      show ?thesis
        by (simp add: tasksDense_def tasksOfList_def moved)
    qed
  qed
qed

lemma tasksDense_createTask:
  assumes "tasksDense d (ti_list_id data)"
  shows "tasksDense (fst (createTask d userId data tid)) (ti_list_id data)"
proof -
  from assms have "dense (map t_position (tasksOfList d (ti_list_id data)))"
    by (simp add: tasksDense_def)
  from dense_append_next [OF this] assms show ?thesis
    by (auto simp: createTask_def Let_def logActivity_def tasksDense_def tasksOfList_def
        split: option.splits)
qed

lemma find_map_same_key:
  assumes "\<And>r. key (f r) = key r"
  shows "find (\<lambda>r. key r = k) (map f rows) = map_option f (find (\<lambda>r. key r = k) rows)"
  using assms by (induction rows) auto

subsection \<open>Facts about the example store\<close>

lemma example_store_keys:
  "distinct (map l_id (listT example_store))" "distinct (map t_id (taskT example_store))"
  by (simp_all add: example_store_def)

lemma dense_three: "dense [0, 1, 2]"
  by (rule denseI [of _ 3]) auto

lemma dense_one: "dense [0]"
  by (rule denseI [of _ 1]) auto

lemma example_store_dense:
  "listsDense example_store ''b1''" "tasksDense example_store ''l0''"
  "tasksDense example_store ''l1''"
  by (simp_all add: listsDense_def tasksDense_def listsOfBoard_def tasksOfList_def
      example_store_def dense_three dense_one)

lemma example_store_rows:
  "findList example_store ''l0'' = Some \<lparr>l_id = ''l0'', l_name = ''To Do'', l_position = 0, l_board_id = ''b1''\<rparr>"
  "findList example_store ''l1'' = Some \<lparr>l_id = ''l1'', l_name = ''In Progress'', l_position = 1, l_board_id = ''b1''\<rparr>"
  "findList example_store ''l2'' = Some \<lparr>l_id = ''l2'', l_name = ''Done'', l_position = 2, l_board_id = ''b1''\<rparr>"
  "findTask example_store ''t0'' = Some \<lparr>t_id = ''t0'', t_title = ''A'', t_description = None,
     t_priority = ''medium'', t_due_date = None, t_position = 0, t_list_id = ''l0'',
     t_created_by = ''alice''\<rparr>"
  "findTask example_store ''t2'' = Some \<lparr>t_id = ''t2'', t_title = ''C'', t_description = None,
     t_priority = ''medium'', t_due_date = None, t_position = 2, t_list_id = ''l0'',
     t_created_by = ''alice''\<rparr>"
  by (simp_all add: findList_def findTask_def example_store_def)

lemma example_store_sizes:
  "length (listsOfBoard example_store ''b1'') = 3"
  "length (tasksOfList example_store ''l0'') = 3"
  "length (tasksOfList example_store ''l1'') = 1"
  by (simp_all add: listsOfBoard_def tasksOfList_def example_store_def)

subsection \<open>Positions after an operation\<close>

text \<open>
  Claim C1, for the operations that keep the positions dense.  In a store whose list and
  task rows have distinct ids: creating a list or a task, deleting a list, reordering a
  list to a position among the lists of its board, moving a task within its list to a
  position among the tasks of the list, and moving a task to another list at a position
  from 0 up to the number of tasks of that list, each lead from dense positions in the
  affected scopes to dense positions in those scopes.
\<close>

theorem C1_positions_stay_dense:
  assumes "distinct (map l_id (listT d))" and "distinct (map t_id (taskT d))"
  shows "(listsDense d boardId \<longrightarrow>
            listsDense (fst (createList d boardId userId name lid)) boardId) \<and>
         (\<forall>l. findList d listId = Some l \<and> listsDense d (l_board_id l) \<longrightarrow>
            listsDense (fst (deleteList d listId userId)) (l_board_id l)) \<and>
         (\<forall>l. findList d listId = Some l \<and> listsDense d (l_board_id l) \<and>
              (\<forall>p. lu_position data = Some p \<longrightarrow>
                 0 \<le> p \<and> p < int (length (listsOfBoard d (l_board_id l)))) \<longrightarrow>
            listsDense (fst (updateList d listId userId data)) (l_board_id l)) \<and>
         (tasksDense d (ti_list_id input) \<longrightarrow>
            tasksDense (fst (createTask d userId input tid)) (ti_list_id input)) \<and>
         (\<forall>t. findTask d taskId = Some t \<and> tasksDense d (t_list_id t) \<and> tasksDense d list_id \<and>
              0 \<le> p \<and>
              (if list_id = t_list_id t then p < int (length (tasksOfList d list_id))
               else p \<le> int (length (tasksOfList d list_id))) \<longrightarrow>
            tasksDense (fst (moveTask d taskId userId list_id p)) (t_list_id t) \<and>
            tasksDense (fst (moveTask d taskId userId list_id p)) list_id)"
proof (intro conjI allI impI)
  assume "listsDense d boardId"
  then show "listsDense (fst (createList d boardId userId name lid)) boardId"
    by (rule listsDense_createList)
next
  fix l assume "findList d listId = Some l \<and> listsDense d (l_board_id l)"
  then show "listsDense (fst (deleteList d listId userId)) (l_board_id l)"
    using listsDense_deleteList [OF assms(1)] by blast
next
  fix l
  assume h: "findList d listId = Some l \<and> listsDense d (l_board_id l) \<and>
              (\<forall>p. lu_position data = Some p \<longrightarrow>
                 0 \<le> p \<and> p < int (length (listsOfBoard d (l_board_id l))))"
  then have "\<And>p. lu_position data = Some p \<Longrightarrow>
                 0 \<le> p \<and> p < int (length (listsOfBoard d (l_board_id l)))"
    by blast
  with h show "listsDense (fst (updateList d listId userId data)) (l_board_id l)"
    using listsDense_updateList [OF assms(1), of listId l data userId] by blast
next
  assume "tasksDense d (ti_list_id input)"
  then show "tasksDense (fst (createTask d userId input tid)) (ti_list_id input)"
    by (rule tasksDense_createTask)
next
  fix t
  assume h: "findTask d taskId = Some t \<and> tasksDense d (t_list_id t) \<and> tasksDense d list_id \<and>
              0 \<le> p \<and>
              (if list_id = t_list_id t then p < int (length (tasksOfList d list_id))
               else p \<le> int (length (tasksOfList d list_id)))"
  then have r: "tasksDense (fst (moveTask d taskId userId list_id p)) (t_list_id t) \<and>
         tasksDense (fst (moveTask d taskId userId list_id p)) list_id"
    using tasksDense_moveTask [OF assms(2), of taskId t list_id p userId] by blast
  from r show "tasksDense (fst (moveTask d taskId userId list_id p)) (t_list_id t)" by blast
  from r show "tasksDense (fst (moveTask d taskId userId list_id p)) list_id" by blast
qed

theorem C1_positions_stay_dense_witness:
  "listsDense example_store ''b1'' \<and> tasksDense example_store ''l0'' \<and>
   tasksDense example_store ''l1'' \<and>
   listsDense (fst (createList example_store ''b1'' ''alice'' ''X'' ''l9'')) ''b1'' \<and>
   listsDense (fst (deleteList example_store ''l1'' ''alice'')) ''b1'' \<and>
   listsDense (fst (updateList example_store ''l1'' ''alice''
                      \<lparr>lu_name = None, lu_position = Some 2\<rparr>)) ''b1'' \<and>
   tasksDense (fst (createTask example_store ''alice''
                      \<lparr>ti_list_id = ''l0'', ti_title = ''E'', ti_description = None,
                        ti_priority = None, ti_due_date = None\<rparr> ''t9'')) ''l0'' \<and>
   tasksDense (fst (moveTask example_store ''t0'' ''alice'' ''l1'' 1)) ''l0'' \<and>
   tasksDense (fst (moveTask example_store ''t0'' ''alice'' ''l1'' 1)) ''l1'' \<and>
   tasksDense (fst (moveTask example_store ''t0'' ''alice'' ''l0'' 2)) ''l0''"
  using C1_positions_stay_dense [OF example_store_keys,
      where boardId = "''b1''" and userId = "''alice''" and name = "''X''" and lid = "''l9''"
        and listId = "''l1''" and data = "\<lparr>lu_name = None, lu_position = Some 2\<rparr>"
        and input = "\<lparr>ti_list_id = ''l0'', ti_title = ''E'', ti_description = None,
                        ti_priority = None, ti_due_date = None\<rparr>"
        and tid = "''t9''" and taskId = "''t0''" and list_id = "''l1''" and p = 1]
    C1_positions_stay_dense [OF example_store_keys,
      where boardId = "''b1''" and userId = "''alice''" and name = "''X''" and lid = "''l9''"
        and listId = "''l1''" and data = "\<lparr>lu_name = None, lu_position = Some 2\<rparr>"
        and input = "\<lparr>ti_list_id = ''l0'', ti_title = ''E'', ti_description = None,
                        ti_priority = None, ti_due_date = None\<rparr>"
        and tid = "''t9''" and taskId = "''t0''" and list_id = "''l0''" and p = 2]
    example_store_dense
  by (simp add: example_store_rows example_store_sizes)

theorem C1_positions_stay_dense_counterexample:
  "listsDense example_store ''b1'' \<and>
   findList example_store ''l0'' \<noteq> None \<and>
   \<not> listsDense (fst (updateList example_store ''l0'' ''alice''
                        \<lparr>lu_name = None, lu_position = Some 5\<rparr>)) ''b1''"
proof -
  have after: "map l_position (listsOfBoard (fst (updateList example_store ''l0'' ''alice''
                        \<lparr>lu_name = None, lu_position = Some 5\<rparr>)) ''b1'') = [5, 0, 1]"
    by (simp add: updateList_def reorderLists_def updateMany_def setListName_def findList_def
        logActivity_def listsOfBoard_def example_store_def Let_def)
  have "\<not> dense [5, 0, 1]"
    using dense_bounds [of "[5, 0, 1]" 5] by auto
  with after example_store_dense(1) example_store_rows(1) show ?thesis
    by (simp add: listsDense_def)
qed

subsection \<open>Deleting a list, deleting a task\<close>

lemma deleteTask_taskT:
  assumes "findTask d taskId = Some t" and "findList d (t_list_id t) = Some l"
  shows "taskT (fst (deleteTask d taskId userId)) = filter (\<lambda>r. t_id r \<noteq> taskId) (taskT d)"
  using assms by (simp add: deleteTask_def Let_def logActivity_def)

text \<open>
  Claim C2 on the example store.  \<open>deleteList\<close> removes the list and decrements the
  lists of the board after it: deleting the list at position 0 of board \<open>b1\<close> leaves
  its two siblings at positions 0 and 1.  \<open>deleteTask\<close> removes the row of the task
  and touches no other task row: deleting the task at position 0 of list \<open>l0\<close> leaves
  its two siblings at positions 1 and 2.
\<close>

theorem C2_delete_positions:
  "map l_id (listsOfBoard (fst (deleteList example_store ''l0'' ''alice'')) ''b1'') = [''l1'', ''l2''] \<and>
   map l_position (listsOfBoard (fst (deleteList example_store ''l0'' ''alice'')) ''b1'') = [0, 1] \<and>
   map t_id (tasksOfList (fst (deleteTask example_store ''t0'' ''alice'')) ''l0'') = [''t1'', ''t2''] \<and>
   map t_position (tasksOfList (fst (deleteTask example_store ''t0'' ''alice'')) ''l0'') = [1, 2]"
proof -
  have lists: "listT (fst (deleteList example_store ''l0'' ''alice'')) =
      updateMany (\<lambda>r. l_board_id r = ''b1'' \<and> l_position r > 0)
        (\<lambda>r. r\<lparr>l_position := l_position r - 1\<rparr>)
        (filter (\<lambda>r. l_id r \<noteq> ''l0'') (listT example_store))"
    using deleteList_listT [OF example_store_rows(1), of "''alice''"] by simp
  have tasks: "taskT (fst (deleteTask example_store ''t0'' ''alice'')) =
      filter (\<lambda>r. t_id r \<noteq> ''t0'') (taskT example_store)"
    using deleteTask_taskT [OF example_store_rows(4), of _ "''alice''"]
    by (simp add: example_store_rows)
  show ?thesis
    unfolding listsOfBoard_def tasksOfList_def lists tasks
    by (simp add: updateMany_def example_store_def)
qed

subsection \<open>Moving within one scope\<close>

text \<open>
  Claim C3: when a list is reordered by \<open>updateList\<close>, or a task is moved by
  \<open>moveTask\<close> within its list, from position \<open>old\<close> to \<open>new\<close>: if \<open>new > old\<close>
  exactly the siblings with \<open>old < position \<le> new\<close> are decremented by one, if
  \<open>new < old\<close> exactly the siblings with \<open>new \<le> position < old\<close> are incremented by
  one, the moved element gets position \<open>new\<close>, and every other row is unchanged.
\<close>

theorem C3_move_within_scope:
  "(findList d listId = Some l \<and> lu_position data = Some new \<and> new > l_position l \<longrightarrow>
      listT (fst (updateList d listId userId data)) =
        map (\<lambda>r. if l_id r = listId then (setListName (lu_name data) r)\<lparr>l_position := new\<rparr>
                  else if l_board_id r = l_board_id l \<and>
                          l_position l < l_position r \<and> l_position r \<le> new
                  then r\<lparr>l_position := l_position r - 1\<rparr>
                  else r) (listT d)) \<and>
   (findList d listId = Some l \<and> lu_position data = Some new \<and> new < l_position l \<longrightarrow>
      listT (fst (updateList d listId userId data)) =
        map (\<lambda>r. if l_id r = listId then (setListName (lu_name data) r)\<lparr>l_position := new\<rparr>
                  else if l_board_id r = l_board_id l \<and>
                          new \<le> l_position r \<and> l_position r < l_position l
                  then r\<lparr>l_position := l_position r + 1\<rparr>
                  else r) (listT d)) \<and>
   (findTask d taskId = Some t \<and> findList d (t_list_id t) = Some tlist \<and> new > t_position t \<longrightarrow>
      taskT (fst (moveTask d taskId userId (t_list_id t) new)) =
        map (\<lambda>r. if t_id r = taskId then r\<lparr>t_list_id := t_list_id t, t_position := new\<rparr>
                  else if t_list_id r = t_list_id t \<and>
                          t_position t < t_position r \<and> t_position r \<le> new
                  then r\<lparr>t_position := t_position r - 1\<rparr>
                  else r) (taskT d)) \<and>
   (findTask d taskId = Some t \<and> findList d (t_list_id t) = Some tlist \<and> new < t_position t \<longrightarrow>
      taskT (fst (moveTask d taskId userId (t_list_id t) new)) =
        map (\<lambda>r. if t_id r = taskId then r\<lparr>t_list_id := t_list_id t, t_position := new\<rparr>
                  else if t_list_id r = t_list_id t \<and>
                          new \<le> t_position r \<and> t_position r < t_position t
                  then r\<lparr>t_position := t_position r + 1\<rparr>
                  else r) (taskT d))"
proof (intro conjI impI)
  assume h: "findList d listId = Some l \<and> lu_position data = Some new \<and> new > l_position l"
  then have "listT (fst (updateList d listId userId data)) =
      reorderLists l (lu_name data) new (listT d)"
    by (simp add: updateList_listT)
  also have "\<dots> = map (\<lambda>r. if l_id r = listId then (setListName (lu_name data) r)\<lparr>l_position := new\<rparr>
                  else if l_board_id r = l_board_id l \<and>
                          l_position l < l_position r \<and> l_position r \<le> new
                  then r\<lparr>l_position := l_position r - 1\<rparr>
                  else r) (listT d)"
    using h findList_id [of d listId l]
    by (subst reorderLists_pointwise) (auto simp: shiftWithin_def)
  finally show "listT (fst (updateList d listId userId data)) =
        map (\<lambda>r. if l_id r = listId then (setListName (lu_name data) r)\<lparr>l_position := new\<rparr>
                  else if l_board_id r = l_board_id l \<and>
                          l_position l < l_position r \<and> l_position r \<le> new
                  then r\<lparr>l_position := l_position r - 1\<rparr>
                  else r) (listT d)" .
next
  assume h: "findList d listId = Some l \<and> lu_position data = Some new \<and> new < l_position l"
  then have "listT (fst (updateList d listId userId data)) =
      reorderLists l (lu_name data) new (listT d)"
    by (simp add: updateList_listT)
  also have "\<dots> = map (\<lambda>r. if l_id r = listId then (setListName (lu_name data) r)\<lparr>l_position := new\<rparr>
                  else if l_board_id r = l_board_id l \<and>
                          new \<le> l_position r \<and> l_position r < l_position l
                  then r\<lparr>l_position := l_position r + 1\<rparr>
                  else r) (listT d)"
    using h findList_id [of d listId l]
    by (subst reorderLists_pointwise) (auto simp: shiftWithin_def)
  finally show "listT (fst (updateList d listId userId data)) =
        map (\<lambda>r. if l_id r = listId then (setListName (lu_name data) r)\<lparr>l_position := new\<rparr>
                  else if l_board_id r = l_board_id l \<and>
                          new \<le> l_position r \<and> l_position r < l_position l
                  then r\<lparr>l_position := l_position r + 1\<rparr>
                  else r) (listT d)" .
next
  assume h: "findTask d taskId = Some t \<and> findList d (t_list_id t) = Some tlist \<and> new > t_position t"
  then have "taskT (fst (moveTask d taskId userId (t_list_id t) new)) =
      moveRows t (t_list_id t) new (taskT d)"
    by (simp add: moveTask_taskT)
  also have "\<dots> = map (\<lambda>r. if t_id r = taskId then r\<lparr>t_list_id := t_list_id t, t_position := new\<rparr>
                  else if t_list_id r = t_list_id t \<and>
                          t_position t < t_position r \<and> t_position r \<le> new
                  then r\<lparr>t_position := t_position r - 1\<rparr>
                  else r) (taskT d)"
    using h findTask_id [of d taskId t]
    by (subst moveRows_within) (auto simp: shiftWithin_def)
  finally show "taskT (fst (moveTask d taskId userId (t_list_id t) new)) =
        map (\<lambda>r. if t_id r = taskId then r\<lparr>t_list_id := t_list_id t, t_position := new\<rparr>
                  else if t_list_id r = t_list_id t \<and>
                          t_position t < t_position r \<and> t_position r \<le> new
                  then r\<lparr>t_position := t_position r - 1\<rparr>
                  else r) (taskT d)" .
next
  assume h: "findTask d taskId = Some t \<and> findList d (t_list_id t) = Some tlist \<and> new < t_position t"
  then have "taskT (fst (moveTask d taskId userId (t_list_id t) new)) =
      moveRows t (t_list_id t) new (taskT d)"
    by (simp add: moveTask_taskT)
  also have "\<dots> = map (\<lambda>r. if t_id r = taskId then r\<lparr>t_list_id := t_list_id t, t_position := new\<rparr>
                  else if t_list_id r = t_list_id t \<and>
                          new \<le> t_position r \<and> t_position r < t_position t
                  then r\<lparr>t_position := t_position r + 1\<rparr>
                  else r) (taskT d)"
    using h findTask_id [of d taskId t]
    by (subst moveRows_within) (auto simp: shiftWithin_def)
  finally show "taskT (fst (moveTask d taskId userId (t_list_id t) new)) =
        map (\<lambda>r. if t_id r = taskId then r\<lparr>t_list_id := t_list_id t, t_position := new\<rparr>
                  else if t_list_id r = t_list_id t \<and>
                          new \<le> t_position r \<and> t_position r < t_position t
                  then r\<lparr>t_position := t_position r + 1\<rparr>
                  else r) (taskT d)" .
qed

theorem C3_move_within_scope_witness:
  "map l_position (listT (fst (updateList example_store ''l0'' ''alice''
       \<lparr>lu_name = None, lu_position = Some 2\<rparr>))) = [2, 0, 1, 0] \<and>
   map l_position (listT (fst (updateList example_store ''l2'' ''alice''
       \<lparr>lu_name = None, lu_position = Some 0\<rparr>))) = [1, 2, 0, 0] \<and>
   map t_position (taskT (fst (moveTask example_store ''t0'' ''alice'' ''l0'' 2))) = [2, 0, 1, 0] \<and>
   map t_position (taskT (fst (moveTask example_store ''t2'' ''alice'' ''l0'' 0))) = [1, 2, 0, 0]"
proof -
  let ?l0 = "\<lparr>l_id = ''l0'', l_name = ''To Do'', l_position = 0, l_board_id = ''b1''\<rparr>"
  let ?l2 = "\<lparr>l_id = ''l2'', l_name = ''Done'', l_position = 2, l_board_id = ''b1''\<rparr>"
  let ?t0 = "\<lparr>t_id = ''t0'', t_title = ''A'', t_description = None,
     t_priority = ''medium'', t_due_date = None, t_position = 0, t_list_id = ''l0'',
     t_created_by = ''alice''\<rparr>"
  let ?t2 = "\<lparr>t_id = ''t2'', t_title = ''C'', t_description = None,
     t_priority = ''medium'', t_due_date = None, t_position = 2, t_list_id = ''l0'',
     t_created_by = ''alice''\<rparr>"
  have up: "listT (fst (updateList example_store ''l0'' ''alice''
       \<lparr>lu_name = None, lu_position = Some 2\<rparr>)) =
     map (\<lambda>r. if l_id r = ''l0'' then r\<lparr>l_position := 2\<rparr>
               else if l_board_id r = ''b1'' \<and> 0 < l_position r \<and> l_position r \<le> 2
               then r\<lparr>l_position := l_position r - 1\<rparr> else r) (listT example_store)"
    and tup: "taskT (fst (moveTask example_store ''t0'' ''alice'' ''l0'' 2)) =
     map (\<lambda>r. if t_id r = ''t0'' then r\<lparr>t_list_id := ''l0'', t_position := 2\<rparr>
               else if t_list_id r = ''l0'' \<and> 0 < t_position r \<and> t_position r \<le> 2
               then r\<lparr>t_position := t_position r - 1\<rparr> else r) (taskT example_store)"
    using C3_move_within_scope [where d = example_store and listId = "''l0''" and l = ?l0
        and data = "\<lparr>lu_name = None, lu_position = Some 2\<rparr>" and new = 2
        and userId = "''alice''" and taskId = "''t0''" and t = ?t0 and tlist = ?l0]
    by (simp_all add: example_store_rows setListName_def)
  have down: "listT (fst (updateList example_store ''l2'' ''alice''
       \<lparr>lu_name = None, lu_position = Some 0\<rparr>)) =
     map (\<lambda>r. if l_id r = ''l2'' then r\<lparr>l_position := 0\<rparr>
               else if l_board_id r = ''b1'' \<and> 0 \<le> l_position r \<and> l_position r < 2
               then r\<lparr>l_position := l_position r + 1\<rparr> else r) (listT example_store)"
    and tdown: "taskT (fst (moveTask example_store ''t2'' ''alice'' ''l0'' 0)) =
     map (\<lambda>r. if t_id r = ''t2'' then r\<lparr>t_list_id := ''l0'', t_position := 0\<rparr>
               else if t_list_id r = ''l0'' \<and> 0 \<le> t_position r \<and> t_position r < 2
               then r\<lparr>t_position := t_position r + 1\<rparr> else r) (taskT example_store)"
    using C3_move_within_scope [where d = example_store and listId = "''l2''" and l = ?l2
        and data = "\<lparr>lu_name = None, lu_position = Some 0\<rparr>" and new = 0
        and userId = "''alice''" and taskId = "''t2''" and t = ?t2 and tlist = ?l0]
    by (simp_all add: example_store_rows setListName_def)
  show ?thesis
    unfolding up down tup tdown by (simp add: example_store_def)
qed

subsection \<open>Moving a task to another list\<close>

text \<open>
  Claim C4: when \<open>moveTask\<close> moves a task to a different list of the same board,
  every task of the source list after the task's old position is decremented by one,
  every task of the target list at or after the requested position is incremented by
  one, the task itself gets the target list and the requested position, and no other
  row changes; the moved task is what the call returns.  If the task ids are distinct
  and the source list was dense, the source list is dense afterwards.
\<close>

theorem C4_move_to_other_list:
  assumes "findTask d taskId = Some t"
    and "findList d (t_list_id t) = Some l"
    and "findList d list_id = Some targetList"
    and "l_board_id targetList = l_board_id l"
    and "list_id \<noteq> t_list_id t"
  shows "taskT (fst (moveTask d taskId userId list_id p)) =
           map (\<lambda>r. if t_id r = taskId then r\<lparr>t_list_id := list_id, t_position := p\<rparr>
                     else if t_list_id r = t_list_id t \<and> t_position r > t_position t
                     then r\<lparr>t_position := t_position r - 1\<rparr>
                     else if t_list_id r = list_id \<and> t_position r \<ge> p
                     then r\<lparr>t_position := t_position r + 1\<rparr>
                     else r) (taskT d) \<and>
         snd (moveTask d taskId userId list_id p) =
           Inr (Some (t\<lparr>t_list_id := list_id, t_position := p\<rparr>)) \<and>
         (distinct (map t_id (taskT d)) \<and> tasksDense d (t_list_id t) \<longrightarrow>
            tasksDense (fst (moveTask d taskId userId list_id p)) (t_list_id t))"
proof (intro conjI impI)
  have moved: "taskT (fst (moveTask d taskId userId list_id p)) = moveRows t list_id p (taskT d)"
    using assms(1-4) by (rule moveTask_taskT)
  have id: "t_id t = taskId"
    using assms(1) by (rule findTask_id)
  show rows: "taskT (fst (moveTask d taskId userId list_id p)) =
           map (\<lambda>r. if t_id r = taskId then r\<lparr>t_list_id := list_id, t_position := p\<rparr>
                     else if t_list_id r = t_list_id t \<and> t_position r > t_position t
                     then r\<lparr>t_position := t_position r - 1\<rparr>
                     else if t_list_id r = list_id \<and> t_position r \<ge> p
                     then r\<lparr>t_position := t_position r + 1\<rparr>
                     else r) (taskT d)"
    unfolding moved moveRows_across [OF assms(5)] id ..
  have "snd (moveTask d taskId userId list_id p) =
          Inr (find (\<lambda>r. t_id r = taskId) (moveRows t list_id p (taskT d)))"
    using assms(1-4) by (simp add: moveTask_def Let_def findTask_def)
  also have "find (\<lambda>r. t_id r = taskId) (moveRows t list_id p (taskT d)) =
        Some (t\<lparr>t_list_id := list_id, t_position := p\<rparr>)"
    unfolding moveRows_across [OF assms(5)]
    using assms(1) id by (subst find_map_same_key) (auto simp: findTask_def)
  finally show "snd (moveTask d taskId userId list_id p) =
           Inr (Some (t\<lparr>t_list_id := list_id, t_position := p\<rparr>))" .
  assume h: "distinct (map t_id (taskT d)) \<and> tasksDense d (t_list_id t)"
  then have pk: "distinct (map t_id (taskT d))"
    and dn: "dense (map t_position (filter (\<lambda>r. t_list_id r = t_list_id t) (taskT d)))"
    by (simp_all add: tasksDense_def tasksOfList_def)
  from assms(1) have f: "find (\<lambda>r. t_id r = taskId) (taskT d) = Some t"
    by (simp add: findTask_def)
  from tasks_across_source_dense [OF pk f assms(5) dn, of p]
  show "tasksDense (fst (moveTask d taskId userId list_id p)) (t_list_id t)"
    by (simp add: tasksDense_def tasksOfList_def moved)
qed

theorem C4_move_to_other_list_witness:
  "map (\<lambda>r. (t_id r, t_list_id r, t_position r))
     (taskT (fst (moveTask example_store ''t0'' ''alice'' ''l1'' 0))) =
     [(''t0'', ''l1'', 0), (''t1'', ''l0'', 0), (''t2'', ''l0'', 1), (''t3'', ''l1'', 1)] \<and>
   tasksDense (fst (moveTask example_store ''t0'' ''alice'' ''l1'' 0)) ''l0''"
proof -
  let ?l0 = "\<lparr>l_id = ''l0'', l_name = ''To Do'', l_position = 0, l_board_id = ''b1''\<rparr>"
  let ?l1 = "\<lparr>l_id = ''l1'', l_name = ''In Progress'', l_position = 1, l_board_id = ''b1''\<rparr>"
  let ?t0 = "\<lparr>t_id = ''t0'', t_title = ''A'', t_description = None,
     t_priority = ''medium'', t_due_date = None, t_position = 0, t_list_id = ''l0'',
     t_created_by = ''alice''\<rparr>"
  have t: "findTask example_store ''t0'' = Some ?t0"
    and l: "findList example_store (t_list_id ?t0) = Some ?l0"
    and k: "findList example_store ''l1'' = Some ?l1"
    by (simp_all add: example_store_rows)
  have b: "l_board_id ?l1 = l_board_id ?l0" and ne: "''l1'' \<noteq> t_list_id ?t0"
    by simp_all
  note c = C4_move_to_other_list [OF t l k b ne, of "''alice''" 0]
  from c have rows: "taskT (fst (moveTask example_store ''t0'' ''alice'' ''l1'' 0)) =
      map (\<lambda>r. if t_id r = ''t0'' then r\<lparr>t_list_id := ''l1'', t_position := 0\<rparr>
                else if t_list_id r = ''l0'' \<and> t_position r > 0
                then r\<lparr>t_position := t_position r - 1\<rparr>
                else if t_list_id r = ''l1'' \<and> t_position r \<ge> 0
                then r\<lparr>t_position := t_position r + 1\<rparr>
                else r) (taskT example_store)"
    by simp
  from c example_store_keys(2) example_store_dense(2)
  have "tasksDense (fst (moveTask example_store ''t0'' ''alice'' ''l1'' 0)) ''l0''"
    by simp
  moreover have "map (\<lambda>r. (t_id r, t_list_id r, t_position r))
     (taskT (fst (moveTask example_store ''t0'' ''alice'' ''l1'' 0))) =
     [(''t0'', ''l1'', 0), (''t1'', ''l0'', 0), (''t2'', ''l0'', 1), (''t3'', ''l1'', 1)]"
    unfolding rows by (simp add: example_store_def)
  ultimately show ?thesis by simp
qed


end
